theory Spec2Isabelle
  imports Complex_Main "HOL-Library.Word"
begin

section \<open>JavaScript values seen by the route handlers\<close>

text \<open>
  A JavaScript string is a sequence of UTF-16 code units; \<open>text.length\<close> counts code
  units and \<open>text.trim()\<close> removes the code units of the ECMAScript classes WhiteSpace
  and LineTerminator from both ends.
\<close>

type_synonym code_unit = "16 word"
type_synonym jsstring = "code_unit list"
type_synonym byte = "8 word"

definition ascii :: "string \<Rightarrow> jsstring" where
  "ascii s = map (\<lambda>c. word_of_nat (of_char c)) s"

text \<open>
  A JavaScript number: the finite doubles are rationals; the handlers only pass numbers
  on, they never compute with them.
\<close>

datatype jsnum = Finite rat | NaN | PosInfinity | NegInfinity

text \<open>The values \<open>request.json()\<close> yields. An absent property reads as \<open>undefined\<close>,
  which is \<open>None\<close> of \<open>json option\<close>.\<close>

datatype json =
    JNull
  | JBool bool
  | JNum jsnum
  | JStr jsstring
  | JArr "json list"
  | JObj "(jsstring \<times> json) list"

text \<open>What a \<open>throw\<close> carries: an \<open>Error\<close> instance with its message, or any other value.\<close>

datatype thrown = Error jsstring | NonError

text \<open>Property read \<open>payload.k\<close>. A parsed object keeps the last of duplicate keys; the
  primitives and arrays have none of the properties the handler destructures.\<close>

fun getProp :: "json \<Rightarrow> jsstring \<Rightarrow> json option" where
  "getProp (JObj kvs) k = map_of (rev kvs) k"
| "getProp _ k = None"

text \<open>The operator \<open>??\<close>.\<close>

fun nullish :: "json option \<Rightarrow> json \<Rightarrow> json" where
  "nullish None d = d"
| "nullish (Some JNull) d = d"
| "nullish (Some v) d = v"

text \<open>The operator \<open>!\<close>: true on the falsy values.\<close>

fun js_not :: "json option \<Rightarrow> bool" where
  "js_not None = True"
| "js_not (Some JNull) = True"
| "js_not (Some (JBool b)) = (\<not> b)"
| "js_not (Some (JNum n)) = (n = Finite 0 \<or> n = NaN)"
| "js_not (Some (JStr s)) = (s = [])"
| "js_not (Some (JArr xs)) = False"
| "js_not (Some (JObj kvs)) = False"

fun typeof_js :: "json option \<Rightarrow> string" where
  "typeof_js None = ''undefined''"
| "typeof_js (Some JNull) = ''object''"
| "typeof_js (Some (JBool b)) = ''boolean''"
| "typeof_js (Some (JNum n)) = ''number''"
| "typeof_js (Some (JStr s)) = ''string''"
| "typeof_js (Some (JArr xs)) = ''object''"
| "typeof_js (Some (JObj kvs)) = ''object''"

text \<open>The string, respectively the number, held by a value whose \<open>typeof\<close> says so. The
  handler reads them only behind the \<open>typeof\<close> test; the other equations are never used.\<close>

fun str_of :: "json option \<Rightarrow> jsstring" where
  "str_of (Some (JStr s)) = s"
| "str_of _ = []"

fun num_of :: "json option \<Rightarrow> jsnum" where
  "num_of (Some (JNum n)) = n"
| "num_of _ = NaN"

definition is_white_space :: "code_unit \<Rightarrow> bool" where
  "is_white_space c \<longleftrightarrow>
     c \<in> set [0x0009, 0x000A, 0x000B, 0x000C, 0x000D, 0x0020, 0x00A0, 0x1680,
              0x2028, 0x2029, 0x202F, 0x205F, 0x3000, 0xFEFF]
     \<or> (0x2000 \<le> c \<and> c \<le> 0x200A)"

definition trim :: "jsstring \<Rightarrow> jsstring" where
  "trim s = rev (dropWhile is_white_space (rev (dropWhile is_white_space s)))"

text \<open>
  The message of the \<open>TypeError\<close> that the engine (V8) throws when an object has no
  primitive value.
\<close>

definition msg_cannot_convert :: jsstring where
  "msg_cannot_convert = ascii ''Cannot convert object to primitive value''"

text \<open>
  \<open>String(v)\<close> on a parsed value, and \<open>Array.prototype.join\<close> behind it. A parsed
  object inherits \<open>Object.prototype.toString\<close> and reads \<open>[object Object]\<close>, unless it has
  an own property \<open>toString\<close>: that one is never callable, \<open>valueOf\<close> gives no primitive
  either, and the conversion throws. An array joins the strings of its elements with
  commas, \<open>null\<close> as the empty string, and throws when an element does. The decimal
  form of a number (Number::toString of the language, which never throws) is the
  parameter \<open>numToStr\<close>.
\<close>

fun ToString_js :: "(jsnum \<Rightarrow> jsstring) \<Rightarrow> json \<Rightarrow> thrown + jsstring"
  and join_js :: "(jsnum \<Rightarrow> jsstring) \<Rightarrow> json list \<Rightarrow> thrown + jsstring" where
  "ToString_js numToStr JNull = Inr (ascii ''null'')"
| "ToString_js numToStr (JBool b) = Inr (if b then ascii ''true'' else ascii ''false'')"
| "ToString_js numToStr (JNum n) = Inr (numToStr n)"
| "ToString_js numToStr (JStr s) = Inr s"
| "ToString_js numToStr (JArr xs) = join_js numToStr xs"
| "ToString_js numToStr (JObj kvs) =
     (if ascii ''toString'' \<in> set (map fst kvs) then Inl (Error msg_cannot_convert)
      else Inr (ascii ''[object Object]''))"
| "join_js numToStr [] = Inr []"
| "join_js numToStr (x # xs) =
     (case (if x = JNull then Inr [] else ToString_js numToStr x) of
        Inl e \<Rightarrow> Inl e
      | Inr s \<Rightarrow>
          if xs = [] then Inr s
          else (case join_js numToStr xs of
                  Inl e \<Rightarrow> Inl e
                | Inr r \<Rightarrow> Inr (s @ [0x002C] @ r)))"

text \<open>
  \<open>Number(v)\<close>. On a number it is the identity, \<open>null\<close> is 0, \<open>true\<close> is 1 and
  \<open>false\<close> is 0. A string is read by StringToNumber of the language, which never
  throws: the parameter \<open>strToNum\<close>. An array or an object is first turned into a
  string as above, which can throw, and that string is read.
\<close>

fun Number_js :: "(jsstring \<Rightarrow> jsnum) \<Rightarrow> (jsnum \<Rightarrow> jsstring) \<Rightarrow> json \<Rightarrow> thrown + jsnum" where
  "Number_js strToNum numToStr (JNum n) = Inr n"
| "Number_js strToNum numToStr JNull = Inr (Finite 0)"
| "Number_js strToNum numToStr (JBool b) = Inr (Finite (if b then 1 else 0))"
| "Number_js strToNum numToStr (JStr s) = Inr (strToNum s)"
| "Number_js strToNum numToStr v =
     (case ToString_js numToStr v of Inl e \<Rightarrow> Inl e | Inr s \<Rightarrow> Inr (strToNum s))"

text \<open>\<open>String(n)\<close> of a non-negative integer: its decimal digits.\<close>

fun String_nat :: "nat \<Rightarrow> jsstring" where
  "String_nat n =
     (if n < 10 then [word_of_nat (48 + n)]
      else String_nat (n div 10) @ [word_of_nat (48 + n mod 10)])"

declare String_nat.simps [simp del]

section \<open>Responses\<close>

datatype body = JsonBody json | BytesBody "byte list"

record response =
  resp_status :: nat
  resp_headers :: "(string \<times> jsstring) list"
  resp_body :: body

text \<open>\<open>NextResponse.json(value, { status })\<close>.\<close>

definition NextResponse_json :: "json \<Rightarrow> nat \<Rightarrow> response" where
  "NextResponse_json v st =
     \<lparr>resp_status = st,
      resp_headers = [(''content-type'', ascii ''application/json'')],
      resp_body = JsonBody v\<rparr>"

text \<open>The object \<open>{ message }\<close>.\<close>

definition message_obj :: "jsstring \<Rightarrow> json" where
  "message_obj m = JObj [(ascii ''message'', JStr m)]"

section \<open>Submit: \<open>POST /api/tts\<close> (src/app/api/tts/route.ts)\<close>

definition MAX_CHARACTERS :: nat where
  "MAX_CHARACTERS = 100000"

record SynthesisRequest =
  rq_text :: jsstring
  rq_voiceId :: jsstring
  rq_speed :: jsnum
  rq_pitch :: jsnum
  rq_emotion :: jsstring

definition msg_texto_invalido :: jsstring where
  "msg_texto_invalido = ascii ''Texto inv'' @ [0x00E1] @ ascii ''lido''"

definition msg_limite :: jsstring where
  "msg_limite = ascii ''Limite de caracteres excedido''"

definition msg_selecione :: jsstring where
  "msg_selecione = ascii ''Selecione uma voz''"

definition msg_erro_criar :: jsstring where
  "msg_erro_criar = ascii ''Erro ao criar job de s'' @ [0x00ED] @ ascii ''ntese''"

definition neutro :: jsstring where
  "neutro = ascii ''neutro''"

text \<open>The \<open>catch\<close> block of the handler.\<close>

definition POST_catch :: "thrown \<Rightarrow> response" where
  "POST_catch e =
     (let message = (case e of Error m \<Rightarrow> m | NonError \<Rightarrow> msg_erro_criar)
      in NextResponse_json (message_obj message) 500)"

text \<open>The destructuring \<open>const { text, voiceId, speed, pitch, emotion } = payload ?? {}\<close>,
  one property at a time.\<close>

definition destructure :: "json \<Rightarrow> string \<Rightarrow> json option" where
  "destructure payload k = getProp (nullish (Some payload) (JObj [])) (ascii k)"

text \<open>What the handler answers once \<open>createSynthesisJob\<close> has returned the job id or
  has thrown into the \<open>catch\<close> block.\<close>

fun POST_respond :: "(thrown + jsstring) \<times> 's \<Rightarrow> response \<times> 's" where
  "POST_respond (Inl e, s') = (POST_catch e, s')"
| "POST_respond (Inr jobId, s') =
     (NextResponse_json (JObj [(ascii ''jobId'', JStr jobId)]) 202, s')"

text \<open>
  The handler. \<open>createSynthesisJob\<close> is imported from \<open>@/lib/ttsJobManager\<close>; it is a
  parameter that takes the request and the state of the job manager and returns the job
  id, or throws, with the new state. \<open>parsed\<close> is the outcome of
  \<open>await request.json()\<close>, which throws on a body that is not JSON. The argument of
  \<open>createSynthesisJob\<close> is built before the call, speed first and pitch next; a
  \<open>Number(...)\<close> that throws there ends in the \<open>catch\<close> block and the call is not made.
\<close>

definition POST ::
  "(SynthesisRequest \<Rightarrow> 's \<Rightarrow> (thrown + jsstring) \<times> 's) \<Rightarrow>
   (jsstring \<Rightarrow> jsnum) \<Rightarrow> (jsnum \<Rightarrow> jsstring) \<Rightarrow> thrown + json \<Rightarrow> 's \<Rightarrow> response \<times> 's" where
  "POST createSynthesisJob strToNum numToStr parsed s =
     (case parsed of
        Inl e \<Rightarrow> (POST_catch e, s)
      | Inr payload \<Rightarrow>
         (let text_v = destructure payload ''text'';
              voiceId = destructure payload ''voiceId'';
              speed = destructure payload ''speed'';
              pitch = destructure payload ''pitch'';
              emotion = destructure payload ''emotion''
          in
            if js_not text_v \<or> typeof_js text_v \<noteq> ''string'' \<or> trim (str_of text_v) = []
            then (NextResponse_json (message_obj msg_texto_invalido) 400, s)
            else if length (str_of text_v) > MAX_CHARACTERS
            then (NextResponse_json (message_obj msg_limite) 400, s)
            else if js_not voiceId \<or> typeof_js voiceId \<noteq> ''string''
            then (NextResponse_json (message_obj msg_selecione) 400, s)
            else
              (case (if typeof_js speed = ''number'' then Inr (num_of speed)
                     else Number_js strToNum numToStr (nullish speed (JNum (Finite 1)))) of
                 Inl e \<Rightarrow> (POST_catch e, s)
               | Inr speed_n \<Rightarrow>
                   (case (if typeof_js pitch = ''number'' then Inr (num_of pitch)
                          else Number_js strToNum numToStr (nullish pitch (JNum (Finite 0)))) of
                      Inl e \<Rightarrow> (POST_catch e, s)
                    | Inr pitch_n \<Rightarrow>
                        POST_respond
                          (createSynthesisJob
                             \<lparr>rq_text = str_of text_v,
                              rq_voiceId = str_of voiceId,
                              rq_speed = speed_n,
                              rq_pitch = pitch_n,
                              rq_emotion = (if typeof_js emotion = ''string''
                                            then str_of emotion else neutro)\<rparr> s)))))"

section \<open>Jobs and audio buffers\<close>

text \<open>Modelled from the spec: the status of a job (spec 3); the type is declared in
  \<open>@/lib/ttsJobManager\<close>, which is not among the sources. The client module
  (src/unnamed/part_002) declares the same four values for the status it polls.\<close>

datatype job_status = queued | processing | completed | failed

fun status_str :: "job_status \<Rightarrow> jsstring" where
  "status_str queued = ascii ''queued''"
| "status_str processing = ascii ''processing''"
| "status_str completed = ascii ''completed''"
| "status_str failed = ascii ''failed''"

text \<open>
  A Node \<open>Buffer\<close> is a \<open>Uint8Array\<close>: a view of \<open>byteLength\<close> bytes at \<open>byteOffset\<close>
  into the \<open>ArrayBuffer\<close> \<open>buffer\<close>. Its elements are single bytes, so \<open>length\<close> is
  \<open>byteLength\<close>. The language keeps a view inside its buffer.
\<close>

record Buffer =
  buffer :: "byte list"
  byteOffset :: nat
  byteLength :: nat

definition Buffer_length :: "Buffer \<Rightarrow> nat" where
  "Buffer_length b = byteLength b"

definition Buffer_bytes :: "Buffer \<Rightarrow> byte list" where
  "Buffer_bytes b = take (byteLength b) (drop (byteOffset b) (buffer b))"

definition Buffer_valid :: "Buffer \<Rightarrow> bool" where
  "Buffer_valid b \<longleftrightarrow> byteOffset b + byteLength b \<le> length (buffer b)"

text \<open>\<open>ArrayBuffer.prototype.slice(start, stop)\<close> on non-negative indices: both are
  clamped to the length, and the copy is empty when they cross.\<close>

definition ArrayBuffer_slice :: "byte list \<Rightarrow> nat \<Rightarrow> nat \<Rightarrow> byte list" where
  "ArrayBuffer_slice ab start stop =
     (let len = length ab; first = min start len; final = min stop len
      in take (final - first) (drop first ab))"

text \<open>Modelled from the spec: the job record (spec 3), declared in
  \<open>@/lib/ttsJobManager\<close>. The routes read \<open>id\<close>, \<open>status\<close>, \<open>progress\<close>, \<open>error\<close>
  and \<open>duration\<close>; the optional ones are absent as \<open>None\<close>.\<close>

record Job =
  job_id :: jsstring
  job_status :: job_status
  job_progress :: nat
  job_error :: "jsstring option"
  job_duration :: "jsnum option"
  job_audio :: "Buffer option"

section \<open>Fetch audio: \<open>GET /api/tts/[jobId]/audio\<close> (src/app/api/tts/[jobId]/audio/route.ts)\<close>

definition msg_job_nao_encontrado :: jsstring where
  "msg_job_nao_encontrado = ascii ''Job n'' @ [0x00E3] @ ascii ''o encontrado''"

definition msg_audio_nao_disponivel :: jsstring where
  "msg_audio_nao_disponivel =
     [0x00C1] @ ascii ''udio ainda n'' @ [0x00E3] @ ascii ''o dispon'' @ [0x00ED] @ ascii ''vel''"

definition msg_audio_nao_encontrado :: jsstring where
  "msg_audio_nao_encontrado = [0x00C1] @ ascii ''udio n'' @ [0x00E3] @ ascii ''o encontrado''"

text \<open>
  A header value given to \<open>new NextResponse\<close> must be a byte string without NUL, CR or
  LF: a code unit above 0xFF or one of these three makes the constructor throw a
  \<open>TypeError\<close>. The handler has no \<open>catch\<close>, so the throw leaves it.
\<close>

definition header_value_ok :: "jsstring \<Rightarrow> bool" where
  "header_value_ok v \<longleftrightarrow> list_all (\<lambda>c. c \<le> 0x00FF \<and> c \<noteq> 0x0000 \<and> c \<noteq> 0x000A \<and> c \<noteq> 0x000D) v"

datatype route_error = HeaderTypeError

text \<open>\<open>getJob\<close> and \<open>getJobAudio\<close> are imported from \<open>@/lib/ttsJobManager\<close>; they are
  parameters, already applied to the state of the job manager.\<close>

definition GET_audio ::
  "(jsstring \<Rightarrow> Job option) \<Rightarrow> (jsstring \<Rightarrow> Buffer option) \<Rightarrow> jsstring \<Rightarrow>
   route_error + response" where
  "GET_audio getJob getJobAudio jobId =
     (case getJob jobId of
        None \<Rightarrow> Inr (NextResponse_json (message_obj msg_job_nao_encontrado) 404)
      | Some job \<Rightarrow>
          if job_status job \<noteq> completed
          then Inr (NextResponse_json (message_obj msg_audio_nao_disponivel) 409)
          else
            (case getJobAudio jobId of
               None \<Rightarrow> Inr (NextResponse_json (message_obj msg_audio_nao_encontrado) 404)
             | Some audio \<Rightarrow>
                 (let arrayBuffer = ArrayBuffer_slice (buffer audio) (byteOffset audio)
                                      (byteOffset audio + byteLength audio);
                      body = arrayBuffer;
                      disposition =
                        ascii ''attachment; filename='' @ [0x0022] @ ascii ''aurora-'' @ jobId
                          @ ascii ''.mp3'' @ [0x0022]
                  in if header_value_ok disposition
                     then Inr \<lparr>resp_status = 200,
                               resp_headers =
                                 [(''Content-Type'', ascii ''audio/mpeg''),
                                  (''Content-Disposition'', disposition),
                                  (''Content-Length'', String_nat (Buffer_length audio))],
                               resp_body = BytesBody body\<rparr>
                     else Inl HeaderTypeError)))"

section \<open>Status query: \<open>GET /api/tts/[jobId]\<close>\<close>

text \<open>The body is serialised by \<open>JSON.stringify\<close>, which leaves out the properties whose
  value is \<open>undefined\<close> and writes \<open>null\<close> for a number that is not finite.\<close>

fun stringify_number :: "jsnum \<Rightarrow> json" where
  "stringify_number (Finite q) = JNum (Finite q)"
| "stringify_number n = JNull"

definition GET_status :: "(jsstring \<Rightarrow> Job option) \<Rightarrow> jsstring \<Rightarrow> response" where
  "GET_status getJob jobId =
     (case getJob jobId of
        None \<Rightarrow> NextResponse_json (message_obj msg_job_nao_encontrado) 404
      | Some job \<Rightarrow>
          NextResponse_json
            (JObj
              ([(ascii ''status'', JStr (status_str (job_status job))),
                (ascii ''progress'', stringify_number (Finite (of_nat (job_progress job))))]
               @ (case job_error job of None \<Rightarrow> [] | Some e \<Rightarrow> [(ascii ''error'', JStr e)])
               @ (if job_status job = completed
                  then [(ascii ''downloadUrl'',
                         JStr (ascii ''/api/tts/'' @ job_id job @ ascii ''/audio''))]
                  else [])
               @ (case job_duration job of None \<Rightarrow> []
                  | Some d \<Rightarrow> [(ascii ''duration'', stringify_number d)])))
            200)"

section \<open>The job manager behind the routes, from the specification\<close>

text \<open>
  Modelled from the spec: the state of the job manager \<open>@/lib/ttsJobManager\<close>, which is
  not among the sources. It holds the JobStore registry keyed by job id (spec 4.1), the
  counter behind the generated ids (spec 3: identity is a generated unique id) and, for
  each job, the pipeline execution that owns it (spec 4.2, 5).
\<close>

datatype phase = Waiting | Running nat | Finished

record pipeline =
  pl_request :: SynthesisRequest
  pl_totalChunks :: nat
  pl_segments :: "nat \<rightharpoonup> byte list"
  pl_phase :: phase

record manager =
  jobs :: "jsstring \<rightharpoonup> Job"
  next_id :: nat
  pipelines :: "jsstring \<rightharpoonup> pipeline"

definition empty_manager :: manager where
  "empty_manager = \<lparr>jobs = Map.empty, next_id = 0, pipelines = Map.empty\<rparr>"

text \<open>Modelled from the spec: the generated unique id of a job (spec 3), here the
  decimal numeral of the counter behind a fixed prefix.\<close>

definition mk_id :: "nat \<Rightarrow> jsstring" where
  "mk_id n = ascii ''job-'' @ String_nat n"

text \<open>Modelled from the spec: the terminal states \<open>completed\<close> and \<open>failed\<close> (spec 4.3).\<close>

definition terminal :: "Job \<Rightarrow> bool" where
  "terminal j \<longleftrightarrow> job_status j = completed \<or> job_status j = failed"

text \<open>Modelled from the spec: \<open>JobStore.create\<close> (spec 4.1, 3): a new job is
  \<open>queued\<close> with progress 0, without error, duration or audio.\<close>

definition JobStore_create :: "manager \<Rightarrow> jsstring \<times> manager" where
  "JobStore_create m =
     (let jobId = mk_id (next_id m)
      in (jobId,
          m\<lparr>jobs := (jobs m)(jobId \<mapsto>
                 \<lparr>job_id = jobId, job_status = queued, job_progress = 0, job_error = None,
                  job_duration = None, job_audio = None\<rparr>),
            next_id := Suc (next_id m)\<rparr>))"

text \<open>Modelled from the spec: \<open>JobStore.get\<close> (spec 4.1): an unknown id is absent,
  never a default job.\<close>

definition JobStore_get :: "manager \<Rightarrow> jsstring \<Rightarrow> Job option" where
  "JobStore_get m jobId = jobs m jobId"

text \<open>Modelled from the spec: \<open>JobStore.mutate\<close> (spec 4.1): a read-modify-write of
  one job, a no-op once the job is terminal (and on an unknown id).\<close>

definition JobStore_mutate :: "manager \<Rightarrow> jsstring \<Rightarrow> (Job \<Rightarrow> Job) \<Rightarrow> manager" where
  "JobStore_mutate m jobId fn =
     (case jobs m jobId of
        None \<Rightarrow> m
      | Some job \<Rightarrow> if terminal job then m else m\<lparr>jobs := (jobs m)(jobId \<mapsto> fn job)\<rparr>)"

text \<open>Modelled from the spec: \<open>JobStore.attachAudio\<close> (spec 4.1, 4.2 step 5): sets the
  audio and the duration together with status \<open>completed\<close> and progress 100. It goes
  through \<open>mutate\<close>, the only mutation path (spec 9).\<close>

definition JobStore_attachAudio :: "manager \<Rightarrow> jsstring \<Rightarrow> Buffer \<Rightarrow> jsnum \<Rightarrow> manager" where
  "JobStore_attachAudio m jobId bytes dur =
     JobStore_mutate m jobId
       (\<lambda>job. job\<lparr>job_status := completed, job_progress := 100,
                  job_duration := Some dur, job_audio := Some bytes\<rparr>)"

text \<open>Modelled from the spec: \<open>getJob\<close> and \<open>getJobAudio\<close> of \<open>@/lib/ttsJobManager\<close>,
  the reads behind the status query and the audio fetch (spec 4.3).\<close>

definition getJob :: "manager \<Rightarrow> jsstring \<Rightarrow> Job option" where
  "getJob m jobId = JobStore_get m jobId"

definition getJobAudio :: "manager \<Rightarrow> jsstring \<Rightarrow> Buffer option" where
  "getJobAudio m jobId = (case JobStore_get m jobId of None \<Rightarrow> None | Some job \<Rightarrow> job_audio job)"

text \<open>Modelled from the spec: \<open>createSynthesisJob\<close> of \<open>@/lib/ttsJobManager\<close> (spec 2,
  4.3): it creates the job record and hands the request to a pipeline that has not
  started yet, and returns the id at once. \<open>partitionText\<close> is the chunking of the text
  (spec 4.2 step 2), a parameter.\<close>

definition createSynthesisJob ::
  "(jsstring \<Rightarrow> jsstring list) \<Rightarrow> SynthesisRequest \<Rightarrow> manager \<Rightarrow> (thrown + jsstring) \<times> manager" where
  "createSynthesisJob partitionText request m =
     (let (jobId, m') = JobStore_create m
      in (Inr jobId,
          m'\<lparr>pipelines := (pipelines m')(jobId \<mapsto>
                  \<lparr>pl_request = request,
                   pl_totalChunks = length (partitionText (rq_text request)),
                   pl_segments = Map.empty,
                   pl_phase = Waiting\<rparr>)\<rparr>))"

text \<open>Modelled from the spec: what reaches a pipeline from outside (spec 4.2, 6): its
  start, the outcome of the synthesis of the chunk with a given index, and the events of
  the encoder.\<close>

datatype event =
    Started
  | ChunkDone nat "byte list"
  | ChunkFailed jsstring
  | EncoderProgress nat
  | EncoderEnd Buffer jsnum
  | EncoderError jsstring

text \<open>Modelled from the spec: step 6 of the pipeline (spec 4.2): a failure marks the job
  \<open>failed\<close> with the error message.\<close>

definition fail_job :: "manager \<Rightarrow> jsstring \<Rightarrow> jsstring \<Rightarrow> manager" where
  "fail_job m jobId err =
     JobStore_mutate m jobId (\<lambda>job. job\<lparr>job_status := failed, job_error := Some err\<rparr>)"

text \<open>
  Modelled from the spec: one step of the pipeline of \<open>@/lib/ttsJobManager\<close> (spec 4.2).
  Step 1 marks the job \<open>processing\<close> with progress 1. While chunks are missing, a
  finished chunk is stored under its index and the progress becomes
  \<open>floor (5 + 85 * completedChunks / totalChunks)\<close>. When all chunks are there the
  encoder runs: its percentage is mapped onto the last tenth, and since the spec requires
  the progress to stay monotonic whatever the weighting, a percentage that maps below the
  current progress leaves it as it is; its end commits the audio. A failure ends the
  pipeline. An event that does not fit the phase changes nothing.
\<close>

definition pipeline_step :: "jsstring \<Rightarrow> pipeline \<Rightarrow> event \<Rightarrow> manager \<Rightarrow> pipeline \<times> manager" where
  "pipeline_step jobId pl ev m =
     (case pl_phase pl of
        Waiting \<Rightarrow>
          (case ev of
             Started \<Rightarrow>
               (pl\<lparr>pl_phase := Running 0\<rparr>,
                JobStore_mutate m jobId (\<lambda>job. job\<lparr>job_status := processing, job_progress := 1\<rparr>))
           | _ \<Rightarrow> (pl, m))
      | Running completedChunks \<Rightarrow>
          if completedChunks < pl_totalChunks pl then
            (case ev of
               ChunkDone i segment \<Rightarrow>
                 if i < pl_totalChunks pl \<and> pl_segments pl i = None then
                   (pl\<lparr>pl_segments := (pl_segments pl)(i \<mapsto> segment),
                       pl_phase := Running (Suc completedChunks)\<rparr>,
                    JobStore_mutate m jobId
                      (\<lambda>job. job\<lparr>job_progress :=
                                    5 + 85 * Suc completedChunks div pl_totalChunks pl\<rparr>))
                 else (pl, m)
             | ChunkFailed err \<Rightarrow> (pl\<lparr>pl_phase := Finished\<rparr>, fail_job m jobId err)
             | _ \<Rightarrow> (pl, m))
          else
            (case ev of
               EncoderProgress percent \<Rightarrow>
                 (pl,
                  JobStore_mutate m jobId
                    (\<lambda>job. job\<lparr>job_progress :=
                                  max (job_progress job) (90 + min percent 100 div 10)\<rparr>))
             | EncoderEnd bytes dur \<Rightarrow>
                 (pl\<lparr>pl_phase := Finished\<rparr>, JobStore_attachAudio m jobId bytes dur)
             | EncoderError err \<Rightarrow> (pl\<lparr>pl_phase := Finished\<rparr>, fail_job m jobId err)
             | _ \<Rightarrow> (pl, m))
      | Finished \<Rightarrow> (pl, m))"

text \<open>Modelled from the spec: the operations that can reach the job manager (spec 4.1,
  4.3): a submit, an event of the pipeline of one job, and the two writes of the JobStore
  called by any other component.\<close>

datatype action =
    Submit SynthesisRequest
  | PipelineEvent jsstring event
  | Mutate jsstring "Job \<Rightarrow> Job"
  | AttachAudio jsstring Buffer jsnum

definition apply_action :: "(jsstring \<Rightarrow> jsstring list) \<Rightarrow> manager \<Rightarrow> action \<Rightarrow> manager" where
  "apply_action partitionText m a =
     (case a of
        Submit request \<Rightarrow> snd (createSynthesisJob partitionText request m)
      | PipelineEvent jobId ev \<Rightarrow>
          (case pipelines m jobId of
             None \<Rightarrow> m
           | Some pl \<Rightarrow>
               (let (pl', m') = pipeline_step jobId pl ev m
                in m'\<lparr>pipelines := (pipelines m')(jobId \<mapsto> pl')\<rparr>))
      | Mutate jobId fn \<Rightarrow> JobStore_mutate m jobId fn
      | AttachAudio jobId bytes dur \<Rightarrow> JobStore_attachAudio m jobId bytes dur)"

definition run :: "(jsstring \<Rightarrow> jsstring list) \<Rightarrow> manager \<Rightarrow> action list \<Rightarrow> manager" where
  "run partitionText m acts = foldl (apply_action partitionText) m acts"

text \<open>Modelled from the spec: the single-writer discipline (spec 3, 9): after its
  creation a job is written only by the pipeline that owns it.\<close>

fun single_writer :: "action \<Rightarrow> bool" where
  "single_writer (Submit request) = True"
| "single_writer (PipelineEvent jobId ev) = True"
| "single_writer (Mutate jobId fn) = False"
| "single_writer (AttachAudio jobId bytes dur) = False"

section \<open>Invariants of the job manager\<close>

text \<open>Every id in the registry was generated by the counter.\<close>

definition ids_fresh :: "manager \<Rightarrow> bool" where
  "ids_fresh m \<longleftrightarrow> (\<forall>jobId. jobs m jobId \<noteq> None \<longrightarrow> (\<exists>k<next_id m. jobId = mk_id k))"

text \<open>How far the job of a pipeline can be in each phase of that pipeline.\<close>

definition in_step :: "pipeline \<Rightarrow> Job \<Rightarrow> bool" where
  "in_step pl job \<longleftrightarrow>
     job_progress job \<le> 100 \<and>
     (case pl_phase pl of
        Waiting \<Rightarrow> job_status job = queued \<and> job_progress job \<le> 1
      | Running k \<Rightarrow>
          job_status job = processing \<and> k \<le> pl_totalChunks pl \<and>
          (k < pl_totalChunks pl \<longrightarrow> job_progress job \<le> 5 + 85 * k div pl_totalChunks pl)
      | Finished \<Rightarrow> terminal job)"

definition owned :: "manager \<Rightarrow> bool" where
  "owned m \<longleftrightarrow>
     (\<forall>jobId pl. pipelines m jobId = Some pl \<longrightarrow>
        (case jobs m jobId of None \<Rightarrow> False | Some job \<Rightarrow> in_step pl job))"

section \<open>Validation of the submit payload\<close>

lemma all_dropWhile_iff: "(\<forall>x\<in>set (dropWhile P xs). P x) \<longleftrightarrow> (\<forall>x\<in>set xs. P x)"
  by (induction xs) auto

lemma trim_Nil_iff: "trim s = [] \<longleftrightarrow> (\<forall>c\<in>set s. is_white_space c)"
  by (simp add: trim_def dropWhile_eq_Nil_conv all_dropWhile_iff)

lemma POST_reject_text:
  assumes "typeof_js (destructure payload ''text'') \<noteq> ''string''
         \<or> (\<forall>c\<in>set (str_of (destructure payload ''text'')). is_white_space c)"
  shows "POST create strToNum numToStr (Inr payload) s
           = (NextResponse_json (message_obj msg_texto_invalido) 400, s)"
  using assms by (auto simp: POST_def Let_def trim_Nil_iff)

lemma POST_reject_limit:
  assumes "destructure payload ''text'' = Some (JStr t)" and "\<not> (\<forall>c\<in>set t. is_white_space c)"
    and "length t > 100000"
  shows "POST create strToNum numToStr (Inr payload) s
           = (NextResponse_json (message_obj msg_limite) 400, s)"
  using assms by (auto simp: POST_def Let_def trim_Nil_iff MAX_CHARACTERS_def)

lemma POST_reject_voice:
  assumes "destructure payload ''text'' = Some (JStr t)" and "\<not> (\<forall>c\<in>set t. is_white_space c)"
    and "length t \<le> 100000"
    and "js_not (destructure payload ''voiceId'') \<or> typeof_js (destructure payload ''voiceId'') \<noteq> ''string''"
  shows "POST create strToNum numToStr (Inr payload) s
           = (NextResponse_json (message_obj msg_selecione) 400, s)"
  using assms by (auto simp: POST_def Let_def trim_Nil_iff MAX_CHARACTERS_def)

text \<open>\<open>Number\<close> is the identity on a number, so the conditional of the handler is
  \<open>Number(x ?? d)\<close> in every case.\<close>

lemma number_or_Number:
  "(if typeof_js x = ''number'' then Inr (num_of x)
    else Number_js strToNum numToStr (nullish x d))
   = Number_js strToNum numToStr (nullish x d)"
  by (cases x rule: typeof_js.cases) simp_all

lemma POST_accept:
  assumes "destructure payload ''text'' = Some (JStr t)" and "\<not> (\<forall>c\<in>set t. is_white_space c)"
    and "length t \<le> 100000"
    and "destructure payload ''voiceId'' = Some (JStr v)" and "v \<noteq> []"
  shows "POST create strToNum numToStr (Inr payload) s
           = (case Number_js strToNum numToStr
                     (nullish (destructure payload ''speed'') (JNum (Finite 1))) of
                Inl e \<Rightarrow> (POST_catch e, s)
              | Inr sp \<Rightarrow>
                  (case Number_js strToNum numToStr
                          (nullish (destructure payload ''pitch'') (JNum (Finite 0))) of
                     Inl e \<Rightarrow> (POST_catch e, s)
                   | Inr pt \<Rightarrow>
                       POST_respond
                         (create
                            \<lparr>rq_text = t, rq_voiceId = v, rq_speed = sp, rq_pitch = pt,
                             rq_emotion =
                               (if typeof_js (destructure payload ''emotion'') = ''string''
                                then str_of (destructure payload ''emotion'') else neutro)\<rparr>
                            s)))"
proof -
  from assms(2) have "t \<noteq> []" and "trim t \<noteq> []"
    by (auto simp: trim_Nil_iff)
  with assms(1,3,4,5) show ?thesis
    by (simp add: POST_def Let_def MAX_CHARACTERS_def number_or_Number cong: sum.case_cong)
qed

lemma POST_accept_ok:
  assumes "destructure payload ''text'' = Some (JStr t)" and "\<not> (\<forall>c\<in>set t. is_white_space c)"
    and "length t \<le> 100000"
    and "destructure payload ''voiceId'' = Some (JStr v)" and "v \<noteq> []"
    and "Number_js strToNum numToStr
           (nullish (destructure payload ''speed'') (JNum (Finite 1))) = Inr sp"
    and "Number_js strToNum numToStr
           (nullish (destructure payload ''pitch'') (JNum (Finite 0))) = Inr pt"
  shows "POST create strToNum numToStr (Inr payload) s
           = POST_respond
               (create
                  \<lparr>rq_text = t, rq_voiceId = v, rq_speed = sp, rq_pitch = pt,
                   rq_emotion =
                     (if typeof_js (destructure payload ''emotion'') = ''string''
                      then str_of (destructure payload ''emotion'') else neutro)\<rparr>
                  s)"
  using POST_accept[OF assms(1-5), of create strToNum numToStr s] assms(6,7)
  by simp

lemma POST_accept_throws:
  assumes "destructure payload ''text'' = Some (JStr t)" and "\<not> (\<forall>c\<in>set t. is_white_space c)"
    and "length t \<le> 100000"
    and "destructure payload ''voiceId'' = Some (JStr v)" and "v \<noteq> []"
    and "Number_js strToNum numToStr
           (nullish (destructure payload ''speed'') (JNum (Finite 1))) = Inl e
       \<or> (\<exists>sp. Number_js strToNum numToStr
                  (nullish (destructure payload ''speed'') (JNum (Finite 1))) = Inr sp)
         \<and> Number_js strToNum numToStr
             (nullish (destructure payload ''pitch'') (JNum (Finite 0))) = Inl e"
  shows "POST create strToNum numToStr (Inr payload) s = (POST_catch e, s)"
  using POST_accept[OF assms(1-5), of create strToNum numToStr s] assms(6)
  by auto

lemma status_json [simp]: "resp_status (NextResponse_json v st) = st"
  by (simp add: NextResponse_json_def)

lemma POST_respond_not_400: "resp_status (fst (POST_respond r)) \<noteq> 400"
  by (cases r rule: POST_respond.cases) (simp_all add: POST_catch_def Let_def)

lemma POST_accept_not_400:
  assumes "destructure payload ''text'' = Some (JStr t)" and "\<not> (\<forall>c\<in>set t. is_white_space c)"
    and "length t \<le> 100000"
    and "destructure payload ''voiceId'' = Some (JStr v)" and "v \<noteq> []"
  shows "resp_status (fst (POST create strToNum numToStr (Inr payload) s)) \<noteq> 400"
  using POST_accept[OF assms, of create strToNum numToStr s]
  by (simp add: POST_respond_not_400 POST_catch_def Let_def split: sum.splits)

section \<open>The audio fetch and the status query\<close>

lemma slice_view:
  "ArrayBuffer_slice (buffer a) (byteOffset a) (byteOffset a + byteLength a) = Buffer_bytes a"
  by (simp add: ArrayBuffer_slice_def Buffer_bytes_def Let_def min_def)

lemma length_Buffer_bytes:
  "Buffer_valid a \<Longrightarrow> length (Buffer_bytes a) = Buffer_length a"
  by (simp add: Buffer_valid_def Buffer_bytes_def Buffer_length_def)

lemma ascii_Nil [simp]: "ascii [] = []"
  by (simp add: ascii_def)

lemma ascii_Cons [simp]: "ascii (c # cs) = word_of_nat (of_char c) # ascii cs"
  by (simp add: ascii_def)

text \<open>
  C1. For a job whose status is \<open>completed\<close> and whose audio buffer is present, and whose
  id can stand in a header (no code unit above 0xFF, no NUL, CR or LF, as is the case
  for generated ids), the audio fetch answers 200 with a body that is exactly the bytes
  of the committed buffer, and its \<open>Content-Length\<close> header is the decimal numeral of
  the number of those bytes.
\<close>

theorem fetchAudio_completed:
  assumes "get jobId = Some job" and "job_status job = completed"
    and "getAudio jobId = Some audio" and "Buffer_valid audio"
    and "header_value_ok jobId"
  shows "\<exists>r. GET_audio get getAudio jobId = Inr r
       \<and> resp_status r = 200
       \<and> resp_body r = BytesBody (Buffer_bytes audio)
       \<and> map_of (resp_headers r) ''Content-Length''
           = Some (String_nat (length (Buffer_bytes audio)))"
  using assms
  by (simp add: GET_audio_def Let_def slice_view length_Buffer_bytes header_value_ok_def)

theorem fetchAudio_completed_witness:
  "\<exists>r. GET_audio
        [ascii ''j1'' \<mapsto> \<lparr>job_id = ascii ''j1'', job_status = completed, job_progress = 100,
            job_error = None, job_duration = Some (Finite 1), job_audio = None\<rparr>]
        [ascii ''j1'' \<mapsto> \<lparr>buffer = [9, 8, 7, 6, 5, 4], byteOffset = 2, byteLength = 3\<rparr>]
        (ascii ''j1'') = Inr r
   \<and> resp_status r = 200
   \<and> resp_body r = BytesBody [7, 6, 5]
   \<and> map_of (resp_headers r) ''Content-Length'' = Some (ascii ''3'')"
proof -
  let ?job = "\<lparr>job_id = ascii ''j1'', job_status = completed, job_progress = 100,
            job_error = None, job_duration = Some (Finite 1), job_audio = None\<rparr>"
  let ?audio = "\<lparr>buffer = [9, 8, 7, 6, 5, 4 :: byte], byteOffset = 2, byteLength = 3\<rparr>"
  have 1: "[ascii ''j1'' \<mapsto> ?job] (ascii ''j1'') = Some ?job" by simp
  have 2: "job_status ?job = completed" by simp
  have 3: "[ascii ''j1'' \<mapsto> ?audio] (ascii ''j1'') = Some ?audio" by simp
  have 4: "Buffer_valid ?audio" by (simp add: Buffer_valid_def)
  have 5: "Buffer_bytes ?audio = [7, 6, 5]" by (simp add: Buffer_bytes_def)
  have 6: "String_nat (length [7, 6, 5 :: byte]) = ascii ''3''" by (simp add: String_nat.simps)
  have 7: "header_value_ok (ascii ''j1'')" by (simp add: header_value_ok_def)
  from fetchAudio_completed[where get = "[ascii ''j1'' \<mapsto> ?job]"
      and getAudio = "[ascii ''j1'' \<mapsto> ?audio]" and jobId = "ascii ''j1''", OF 1 2 3 4 7]
  show ?thesis
    by (simp only: 5 6)
qed

text \<open>
  C6. For an existing job whose status is not \<open>completed\<close> (queued, processing or
  failed), the audio fetch answers 409 with the message that the audio is not available
  yet, and its body holds no audio bytes.
\<close>

theorem fetchAudio_not_ready:
  assumes "get jobId = Some job" and "job_status job \<noteq> completed"
  shows "GET_audio get getAudio jobId
           = Inr (NextResponse_json (message_obj msg_audio_nao_disponivel) 409)
       \<and> (\<forall>r bytes. GET_audio get getAudio jobId = Inr r \<longrightarrow> resp_body r \<noteq> BytesBody bytes)"
  using assms by (auto simp: GET_audio_def NextResponse_json_def)

theorem fetchAudio_not_ready_witness:
  "GET_audio
     [ascii ''j1'' \<mapsto> \<lparr>job_id = ascii ''j1'', job_status = processing, job_progress = 47,
         job_error = None, job_duration = None, job_audio = None\<rparr>]
     Map.empty (ascii ''j1'')
   = Inr (NextResponse_json (message_obj msg_audio_nao_disponivel) 409)
   \<and> GET_audio
     [ascii ''j2'' \<mapsto> \<lparr>job_id = ascii ''j2'', job_status = failed, job_progress = 5,
         job_error = Some (ascii ''boom''), job_duration = None, job_audio = None\<rparr>]
     Map.empty (ascii ''j2'')
   = Inr (NextResponse_json (message_obj msg_audio_nao_disponivel) 409)"
proof -
  let ?j1 = "\<lparr>job_id = ascii ''j1'', job_status = processing, job_progress = 47,
         job_error = None, job_duration = None, job_audio = None\<rparr>"
  let ?j2 = "\<lparr>job_id = ascii ''j2'', job_status = failed, job_progress = 5,
         job_error = Some (ascii ''boom''), job_duration = None, job_audio = None\<rparr>"
  have a: "[ascii ''j1'' \<mapsto> ?j1] (ascii ''j1'') = Some ?j1" by simp
  have b: "job_status ?j1 \<noteq> completed" by simp
  have c: "[ascii ''j2'' \<mapsto> ?j2] (ascii ''j2'') = Some ?j2" by simp
  have d: "job_status ?j2 \<noteq> completed" by simp
  from fetchAudio_not_ready[where get = "[ascii ''j1'' \<mapsto> ?j1]" and jobId = "ascii ''j1''"
      and getAudio = Map.empty, OF a b, THEN conjunct1]
    fetchAudio_not_ready[where get = "[ascii ''j2'' \<mapsto> ?j2]" and jobId = "ascii ''j2''"
      and getAudio = Map.empty, OF c d, THEN conjunct1]
  show ?thesis
    by (intro conjI)
qed

text \<open>
  C7. For a job id that the job store does not know, the status query and the audio
  fetch both answer 404 with the message that the job was not found; the status query
  does not answer with a job view.
\<close>

theorem unknown_job_not_found:
  assumes "get jobId = None"
  shows "GET_status get jobId = NextResponse_json (message_obj msg_job_nao_encontrado) 404
       \<and> GET_audio get getAudio jobId
           = Inr (NextResponse_json (message_obj msg_job_nao_encontrado) 404)
       \<and> resp_status (GET_status get jobId) \<noteq> 200"
  using assms by (simp add: GET_status_def GET_audio_def NextResponse_json_def)

theorem unknown_job_not_found_witness:
  "GET_status (getJob empty_manager) (ascii ''no-such-job'')
     = NextResponse_json (message_obj msg_job_nao_encontrado) 404
   \<and> GET_audio (getJob empty_manager) (getJobAudio empty_manager) (ascii ''no-such-job'')
     = Inr (NextResponse_json (message_obj msg_job_nao_encontrado) 404)"
proof -
  have "getJob empty_manager (ascii ''no-such-job'') = None"
    by (simp add: getJob_def JobStore_get_def empty_manager_def)
  from unknown_job_not_found[where get = "getJob empty_manager"
      and jobId = "ascii ''no-such-job''", OF this]
  show ?thesis by blast
qed

text \<open>
  C8. For a job whose status is \<open>completed\<close> but whose audio buffer is absent, the audio
  fetch answers with the audio-missing error: status 404 with the message that the audio
  was not found. This response differs from the one for an unknown id, and its body
  holds no audio bytes.
\<close>

theorem fetchAudio_audio_missing:
  assumes "get jobId = Some job" and "job_status job = completed"
    and "getAudio jobId = None"
  shows "GET_audio get getAudio jobId
           = Inr (NextResponse_json (message_obj msg_audio_nao_encontrado) 404)
       \<and> GET_audio get getAudio jobId
           \<noteq> Inr (NextResponse_json (message_obj msg_job_nao_encontrado) 404)
       \<and> (\<forall>r bytes. GET_audio get getAudio jobId = Inr r \<longrightarrow> resp_body r \<noteq> BytesBody bytes)"
  using assms
  by (auto simp: GET_audio_def NextResponse_json_def message_obj_def
      msg_audio_nao_encontrado_def msg_job_nao_encontrado_def)

theorem fetchAudio_audio_missing_witness:
  "GET_audio
     [ascii ''j1'' \<mapsto> \<lparr>job_id = ascii ''j1'', job_status = completed, job_progress = 100,
         job_error = None, job_duration = None, job_audio = None\<rparr>]
     Map.empty (ascii ''j1'')
   = Inr (NextResponse_json (message_obj msg_audio_nao_encontrado) 404)"
proof -
  let ?j1 = "\<lparr>job_id = ascii ''j1'', job_status = completed, job_progress = 100,
         job_error = None, job_duration = None, job_audio = None\<rparr>"
  have a: "[ascii ''j1'' \<mapsto> ?j1] (ascii ''j1'') = Some ?j1" by simp
  have b: "job_status ?j1 = completed" by simp
  have c: "(Map.empty :: jsstring \<rightharpoonup> Buffer) (ascii ''j1'') = None" by simp
  from fetchAudio_audio_missing[where get = "[ascii ''j1'' \<mapsto> ?j1]"
      and getAudio = "Map.empty" and jobId = "ascii ''j1''", OF a b c, THEN conjunct1]
  show ?thesis .
qed

section \<open>The submit handler\<close>

lemma typeof_string: "typeof_js x = ''string'' \<Longrightarrow> \<exists>t. x = Some (JStr t)"
  by (cases x rule: typeof_js.cases) simp_all

lemma rejections_distinct:
  "NextResponse_json (message_obj msg_texto_invalido) 400
     \<noteq> NextResponse_json (message_obj msg_limite) 400"
  "NextResponse_json (message_obj msg_selecione) 400
     \<noteq> NextResponse_json (message_obj msg_limite) 400"
  by (simp_all add: NextResponse_json_def message_obj_def msg_texto_invalido_def msg_limite_def
      msg_selecione_def)

text \<open>
  C2. A submit payload that fails validation (text missing, not a string or made of
  white space only; text longer than the limit; voiceId missing or not a string) gets
  one of the three 400 responses, which carry a message and no job id, and the state of
  the job manager is the one before the call. This holds for every \<open>createSynthesisJob\<close>,
  and the response is the same whatever \<open>createSynthesisJob\<close> is: the handler does not
  call it.
\<close>

theorem submit_invalid_never_creates:
  assumes "destructure payload ''text'' = None
         \<or> typeof_js (destructure payload ''text'') \<noteq> ''string''
         \<or> (\<forall>c\<in>set (str_of (destructure payload ''text'')). is_white_space c)
         \<or> length (str_of (destructure payload ''text'')) > 100000
         \<or> destructure payload ''voiceId'' = None
         \<or> typeof_js (destructure payload ''voiceId'') \<noteq> ''string''"
  shows "resp_status (fst (POST create strToNum numToStr (Inr payload) s)) = 400
       \<and> fst (POST create strToNum numToStr (Inr payload) s)
           \<in> {NextResponse_json (message_obj msg_texto_invalido) 400,
               NextResponse_json (message_obj msg_limite) 400,
               NextResponse_json (message_obj msg_selecione) 400}
       \<and> snd (POST create strToNum numToStr (Inr payload) s) = s
       \<and> fst (POST create strToNum numToStr (Inr payload) s) = fst (POST create' strToNum numToStr (Inr payload) s)"
proof (cases "typeof_js (destructure payload ''text'') \<noteq> ''string''
         \<or> (\<forall>c\<in>set (str_of (destructure payload ''text'')). is_white_space c)")
  case True
  then show ?thesis by (simp add: POST_reject_text)
next
  case False
  then obtain t where t: "destructure payload ''text'' = Some (JStr t)"
    using typeof_string by blast
  with False have nb: "\<not> (\<forall>c\<in>set t. is_white_space c)" by simp
  show ?thesis
  proof (cases "length t > 100000")
    case True
    with t nb show ?thesis by (simp add: POST_reject_limit)
  next
    case short: False
    with assms t nb False
    have "js_not (destructure payload ''voiceId'')
        \<or> typeof_js (destructure payload ''voiceId'') \<noteq> ''string''"
      by auto
    with t nb short show ?thesis by (simp add: POST_reject_voice)
  qed
qed

theorem submit_invalid_never_creates_witness:
  "resp_status (fst (POST (createSynthesisJob (\<lambda>t. [t])) (\<lambda>x. NaN) (\<lambda>n. [])
      (Inr (JObj [(ascii ''text'', JStr (ascii ''   '')),
                  (ascii ''voiceId'', JStr (ascii ''fem-soft''))])) empty_manager)) = 400
   \<and> snd (POST (createSynthesisJob (\<lambda>t. [t])) (\<lambda>x. NaN) (\<lambda>n. [])
      (Inr (JObj [(ascii ''text'', JStr (ascii ''   '')),
                  (ascii ''voiceId'', JStr (ascii ''fem-soft''))])) empty_manager)
     = empty_manager
   \<and> resp_status (fst (POST (createSynthesisJob (\<lambda>t. [t])) (\<lambda>x. NaN) (\<lambda>n. [])
      (Inr (JObj [(ascii ''text'', JStr (ascii ''Hello world.''))])) empty_manager)) = 400
   \<and> snd (POST (createSynthesisJob (\<lambda>t. [t])) (\<lambda>x. NaN) (\<lambda>n. [])
      (Inr (JObj [(ascii ''text'', JStr (ascii ''Hello world.''))])) empty_manager)
     = empty_manager"
proof -
  let ?blank = "JObj [(ascii ''text'', JStr (ascii ''   '')),
                      (ascii ''voiceId'', JStr (ascii ''fem-soft''))]"
  let ?novoice = "JObj [(ascii ''text'', JStr (ascii ''Hello world.''))]"
  have a: "\<forall>c\<in>set (str_of (destructure ?blank ''text'')). is_white_space c"
    by (simp add: destructure_def is_white_space_def)
  have b: "destructure ?novoice ''voiceId'' = None"
    by (simp add: destructure_def)
  note r1 = submit_invalid_never_creates[where payload = ?blank
      and create = "createSynthesisJob (\<lambda>t. [t])" and strToNum = "\<lambda>x. NaN" and numToStr = "\<lambda>n. []"
      and s = empty_manager, OF disjI2, OF disjI2, OF disjI1, OF a]
  note r2 = submit_invalid_never_creates[where payload = ?novoice
      and create = "createSynthesisJob (\<lambda>t. [t])" and strToNum = "\<lambda>x. NaN" and numToStr = "\<lambda>n. []"
      and s = empty_manager, OF disjI2, OF disjI2, OF disjI2, OF disjI2, OF disjI1, OF b]
  from r1[THEN conjunct1] r1[THEN conjunct2, THEN conjunct2, THEN conjunct1]
    r2[THEN conjunct1] r2[THEN conjunct2, THEN conjunct2, THEN conjunct1]
  show ?thesis by (intro conjI)
qed

text \<open>
  C3. A submit payload whose text has more than 100000 code units gets a 400 response
  (the limit message, or the invalid-text message when the text is white space only) and
  leaves the state of the job manager unchanged, so no job id is produced. A text of
  exactly 100000 code units is never answered with the limit rejection, and when it is
  not blank, the voiceId is a non-empty string and \<open>Number(speed ?? 1)\<close> and
  \<open>Number(pitch ?? 0)\<close> return, the handler goes on to \<open>createSynthesisJob\<close> with that
  text. The length is the one \<open>text.length\<close> reads, in UTF-16 code units.
\<close>

theorem submit_over_limit_rejected:
  assumes "destructure payload ''text'' = Some (JStr t)"
  shows "(length t > 100000 \<longrightarrow>
            resp_status (fst (POST create strToNum numToStr (Inr payload) s)) = 400
          \<and> (fst (POST create strToNum numToStr (Inr payload) s)
                = NextResponse_json (message_obj msg_limite) 400
             \<or> fst (POST create strToNum numToStr (Inr payload) s)
                = NextResponse_json (message_obj msg_texto_invalido) 400)
          \<and> snd (POST create strToNum numToStr (Inr payload) s) = s)
       \<and> (length t = 100000 \<longrightarrow>
            fst (POST create strToNum numToStr (Inr payload) s)
              \<noteq> NextResponse_json (message_obj msg_limite) 400)
       \<and> (length t = 100000 \<and> \<not> (\<forall>c\<in>set t. is_white_space c)
            \<and> destructure payload ''voiceId'' = Some (JStr v) \<and> v \<noteq> []
            \<and> Number_js strToNum numToStr
                  (nullish (destructure payload ''speed'') (JNum (Finite 1))) = Inr sp
            \<and> Number_js strToNum numToStr
                  (nullish (destructure payload ''pitch'') (JNum (Finite 0))) = Inr pt \<longrightarrow>
            (\<exists>request. rq_text request = t
               \<and> POST create strToNum numToStr (Inr payload) s = POST_respond (create request s)))"
proof (intro conjI impI)
  assume long: "length t > 100000"
  show "resp_status (fst (POST create strToNum numToStr (Inr payload) s)) = 400"
    and "fst (POST create strToNum numToStr (Inr payload) s)
                = NextResponse_json (message_obj msg_limite) 400
             \<or> fst (POST create strToNum numToStr (Inr payload) s)
                = NextResponse_json (message_obj msg_texto_invalido) 400"
    and "snd (POST create strToNum numToStr (Inr payload) s) = s"
    using assms long
    by (cases "\<forall>c\<in>set t. is_white_space c"; simp add: POST_reject_text POST_reject_limit)+
next
  assume len: "length t = 100000"
  show "fst (POST create strToNum numToStr (Inr payload) s)
          \<noteq> NextResponse_json (message_obj msg_limite) 400"
  proof (cases "\<forall>c\<in>set t. is_white_space c")
    case True
    with assms show ?thesis by (simp add: POST_reject_text rejections_distinct)
  next
    case False
    show ?thesis
    proof (cases "js_not (destructure payload ''voiceId'')
        \<or> typeof_js (destructure payload ''voiceId'') \<noteq> ''string''")
      case True
      with assms False len show ?thesis
        by (simp add: POST_reject_voice rejections_distinct)
    next
      case ok: False
      then obtain w where w: "destructure payload ''voiceId'' = Some (JStr w)"
        using typeof_string by blast
      with ok have "w \<noteq> []" by simp
      from POST_accept_not_400[OF assms False _ w this, of create strToNum numToStr s] len
      have "resp_status (fst (POST create strToNum numToStr (Inr payload) s)) \<noteq> 400"
        by simp
      then show ?thesis by auto
    qed
  qed
next
  assume "length t = 100000 \<and> \<not> (\<forall>c\<in>set t. is_white_space c)
            \<and> destructure payload ''voiceId'' = Some (JStr v) \<and> v \<noteq> []
            \<and> Number_js strToNum numToStr
                  (nullish (destructure payload ''speed'') (JNum (Finite 1))) = Inr sp
            \<and> Number_js strToNum numToStr
                  (nullish (destructure payload ''pitch'') (JNum (Finite 0))) = Inr pt"
  then have len: "length t \<le> 100000" and nb: "\<not> (\<forall>c\<in>set t. is_white_space c)"
    and v: "destructure payload ''voiceId'' = Some (JStr v)" and ne: "v \<noteq> []"
    and sp: "Number_js strToNum numToStr
                  (nullish (destructure payload ''speed'') (JNum (Finite 1))) = Inr sp"
    and pt: "Number_js strToNum numToStr
                  (nullish (destructure payload ''pitch'') (JNum (Finite 0))) = Inr pt"
    by simp_all
  from POST_accept_ok[OF assms nb len v ne sp pt, of create s]
  show "\<exists>request. rq_text request = t
               \<and> POST create strToNum numToStr (Inr payload) s = POST_respond (create request s)"
    by (metis SynthesisRequest.select_convs(1))
qed

theorem submit_over_limit_rejected_witness:
  "resp_status (fst (POST (createSynthesisJob (\<lambda>t. [t])) (\<lambda>x. NaN) (\<lambda>n. [])
      (Inr (JObj [(ascii ''text'', JStr (replicate 100001 0x61)),
                  (ascii ''voiceId'', JStr (ascii ''fem-soft''))])) empty_manager)) = 400
   \<and> snd (POST (createSynthesisJob (\<lambda>t. [t])) (\<lambda>x. NaN) (\<lambda>n. [])
      (Inr (JObj [(ascii ''text'', JStr (replicate 100001 0x61)),
                  (ascii ''voiceId'', JStr (ascii ''fem-soft''))])) empty_manager)
     = empty_manager
   \<and> fst (POST (createSynthesisJob (\<lambda>t. [t])) (\<lambda>x. NaN) (\<lambda>n. [])
      (Inr (JObj [(ascii ''text'', JStr (replicate 100000 0x61)),
                  (ascii ''voiceId'', JStr (ascii ''fem-soft''))])) empty_manager)
     \<noteq> NextResponse_json (message_obj msg_limite) 400
   \<and> (\<exists>request. rq_text request = replicate 100000 0x61
        \<and> POST (createSynthesisJob (\<lambda>t. [t])) (\<lambda>x. NaN) (\<lambda>n. [])
             (Inr (JObj [(ascii ''text'', JStr (replicate 100000 0x61)),
                         (ascii ''voiceId'', JStr (ascii ''fem-soft''))])) empty_manager
           = POST_respond (createSynthesisJob (\<lambda>t. [t]) request empty_manager))"
proof -
  let ?over = "JObj [(ascii ''text'', JStr (replicate 100001 0x61)),
                     (ascii ''voiceId'', JStr (ascii ''fem-soft''))]"
  let ?edge = "JObj [(ascii ''text'', JStr (replicate 100000 0x61)),
                     (ascii ''voiceId'', JStr (ascii ''fem-soft''))]"
  have a: "destructure ?over ''text'' = Some (JStr (replicate 100001 0x61))"
    by (simp add: destructure_def)
  have b: "destructure ?edge ''text'' = Some (JStr (replicate 100000 0x61))"
    by (simp add: destructure_def)
  have c: "length (replicate 100001 (0x61 :: code_unit)) > 100000"
    and d: "length (replicate 100000 (0x61 :: code_unit)) = 100000"
    by simp_all
  note r1 = submit_over_limit_rejected[where create = "createSynthesisJob (\<lambda>t. [t])"
      and strToNum = "\<lambda>x. NaN" and numToStr = "\<lambda>n. []" and s = empty_manager, OF a, THEN conjunct1, THEN mp, OF c]
  note r2 = submit_over_limit_rejected[where create = "createSynthesisJob (\<lambda>t. [t])"
      and strToNum = "\<lambda>x. NaN" and numToStr = "\<lambda>n. []" and s = empty_manager, OF b, THEN conjunct2, THEN conjunct1,
      THEN mp, OF d]
  have nb: "\<not> (\<forall>c\<in>set (replicate 100000 (0x61 :: code_unit)). is_white_space c)"
    by (simp add: is_white_space_def)
  have v: "destructure ?edge ''voiceId'' = Some (JStr (ascii ''fem-soft''))"
    by (simp add: destructure_def)
  have ne: "ascii ''fem-soft'' \<noteq> []"
    by simp
  have sp: "Number_js (\<lambda>x. NaN) (\<lambda>n. [])
      (nullish (destructure ?edge ''speed'') (JNum (Finite 1))) = Inr (Finite 1)"
    and pt: "Number_js (\<lambda>x. NaN) (\<lambda>n. [])
      (nullish (destructure ?edge ''pitch'') (JNum (Finite 0))) = Inr (Finite 0)"
    by (simp_all add: destructure_def)
  note r3 = submit_over_limit_rejected[where create = "createSynthesisJob (\<lambda>t. [t])"
      and strToNum = "\<lambda>x. NaN" and numToStr = "\<lambda>n. []" and s = empty_manager
      and v = "ascii ''fem-soft''" and sp = "Finite 1" and pt = "Finite 0", OF b,
      THEN conjunct2, THEN conjunct2, THEN mp, OF conjI, OF d, OF conjI, OF nb, OF conjI,
      OF v, OF conjI, OF ne, OF conjI, OF sp, OF pt]
  from r1[THEN conjunct1] r1[THEN conjunct2, THEN conjunct2] r2 r3
  show ?thesis by (intro conjI)
qed

text \<open>
  C4. The handler looks at the voiceId only for being a non-empty string; it does not
  consult the VoiceCatalog. With a valid text: a voiceId that is missing, null, empty
  or not a string gets the 400 response that asks for a voice and the state is unchanged;
  for every non-empty string voiceId, resolvable or not, the answer is never a 400, and
  when \<open>Number(speed ?? 1)\<close> and \<open>Number(pitch ?? 0)\<close> return, the voiceId is handed
  to \<open>createSynthesisJob\<close> as it is.
\<close>

theorem submit_voice_presence_only:
  assumes "destructure payload ''text'' = Some (JStr t)"
    and "\<not> (\<forall>c\<in>set t. is_white_space c)" and "length t \<le> 100000"
  shows "(js_not (destructure payload ''voiceId'')
            \<or> typeof_js (destructure payload ''voiceId'') \<noteq> ''string'' \<longrightarrow>
          POST create strToNum numToStr (Inr payload) s
            = (NextResponse_json (message_obj msg_selecione) 400, s))
       \<and> (destructure payload ''voiceId'' = Some (JStr v) \<and> v \<noteq> [] \<longrightarrow>
            resp_status (fst (POST create strToNum numToStr (Inr payload) s)) \<noteq> 400)
       \<and> (destructure payload ''voiceId'' = Some (JStr v) \<and> v \<noteq> []
            \<and> Number_js strToNum numToStr
                  (nullish (destructure payload ''speed'') (JNum (Finite 1))) = Inr sp
            \<and> Number_js strToNum numToStr
                  (nullish (destructure payload ''pitch'') (JNum (Finite 0))) = Inr pt \<longrightarrow>
            (\<exists>request. rq_voiceId request = v
               \<and> POST create strToNum numToStr (Inr payload) s
                   = POST_respond (create request s)))"
proof (intro conjI impI)
  assume "js_not (destructure payload ''voiceId'')
            \<or> typeof_js (destructure payload ''voiceId'') \<noteq> ''string''"
  with assms show "POST create strToNum numToStr (Inr payload) s
            = (NextResponse_json (message_obj msg_selecione) 400, s)"
    by (rule POST_reject_voice)
next
  assume "destructure payload ''voiceId'' = Some (JStr v) \<and> v \<noteq> []"
  then have v: "destructure payload ''voiceId'' = Some (JStr v)" and ne: "v \<noteq> []"
    by simp_all
  from assms v ne
  show "resp_status (fst (POST create strToNum numToStr (Inr payload) s)) \<noteq> 400"
    by (rule POST_accept_not_400)
next
  assume "destructure payload ''voiceId'' = Some (JStr v) \<and> v \<noteq> []
            \<and> Number_js strToNum numToStr
                  (nullish (destructure payload ''speed'') (JNum (Finite 1))) = Inr sp
            \<and> Number_js strToNum numToStr
                  (nullish (destructure payload ''pitch'') (JNum (Finite 0))) = Inr pt"
  then have v: "destructure payload ''voiceId'' = Some (JStr v)" and ne: "v \<noteq> []"
    and sp: "Number_js strToNum numToStr
                  (nullish (destructure payload ''speed'') (JNum (Finite 1))) = Inr sp"
    and pt: "Number_js strToNum numToStr
                  (nullish (destructure payload ''pitch'') (JNum (Finite 0))) = Inr pt"
    by simp_all
  from POST_accept_ok[OF assms v ne sp pt, of create s]
  show "\<exists>request. rq_voiceId request = v
               \<and> POST create strToNum numToStr (Inr payload) s
                   = POST_respond (create request s)"
    by (metis SynthesisRequest.select_convs(2))
qed

theorem submit_voice_presence_only_witness:
  "POST (\<lambda>request calls. (Inr (ascii ''job-1''), calls @ [request])) (\<lambda>x. NaN) (\<lambda>n. [])
      (Inr (JObj [(ascii ''text'', JStr (ascii ''Hello world.'')),
                  (ascii ''voiceId'', JNum (Finite 7))])) []
     = (NextResponse_json (message_obj msg_selecione) 400, [])
   \<and> resp_status (fst (POST (\<lambda>request calls. (Inr (ascii ''job-1''), calls @ [request]))
      (\<lambda>x. NaN) (\<lambda>n. [])
      (Inr (JObj [(ascii ''text'', JStr (ascii ''Hello world.'')),
                  (ascii ''voiceId'', JStr (ascii ''x''))])) [])) \<noteq> 400
   \<and> (\<exists>request. rq_voiceId request = ascii ''x''
        \<and> POST (\<lambda>request calls. (Inr (ascii ''job-1''), calls @ [request]))
             (\<lambda>x. NaN) (\<lambda>n. [])
             (Inr (JObj [(ascii ''text'', JStr (ascii ''Hello world.'')),
                         (ascii ''voiceId'', JStr (ascii ''x''))])) []
           = POST_respond (Inr (ascii ''job-1''), [] @ [request]))"
proof -
  let ?bad = "JObj [(ascii ''text'', JStr (ascii ''Hello world.'')),
                    (ascii ''voiceId'', JNum (Finite 7))]"
  let ?unknown = "JObj [(ascii ''text'', JStr (ascii ''Hello world.'')),
                        (ascii ''voiceId'', JStr (ascii ''x''))]"
  have t1: "destructure ?bad ''text'' = Some (JStr (ascii ''Hello world.''))"
    and t2: "destructure ?unknown ''text'' = Some (JStr (ascii ''Hello world.''))"
    by (simp_all add: destructure_def)
  have nb: "\<not> (\<forall>c\<in>set (ascii ''Hello world.''). is_white_space c)"
    by (simp add: is_white_space_def)
  have len: "length (ascii ''Hello world.'') \<le> 100000"
    by simp
  have bad: "js_not (destructure ?bad ''voiceId'')
            \<or> typeof_js (destructure ?bad ''voiceId'') \<noteq> ''string''"
    by (simp add: destructure_def)
  have v: "destructure ?unknown ''voiceId'' = Some (JStr (ascii ''x''))"
    by (simp add: destructure_def)
  have ne: "ascii ''x'' \<noteq> []"
    by simp
  have sp: "Number_js (\<lambda>x. NaN) (\<lambda>n. [])
      (nullish (destructure ?unknown ''speed'') (JNum (Finite 1))) = Inr (Finite 1)"
    and pt: "Number_js (\<lambda>x. NaN) (\<lambda>n. [])
      (nullish (destructure ?unknown ''pitch'') (JNum (Finite 0))) = Inr (Finite 0)"
    by (simp_all add: destructure_def)
  note r1 = submit_voice_presence_only[where
      create = "\<lambda>request calls. (Inr (ascii ''job-1''), calls @ [request])"
      and strToNum = "\<lambda>x. NaN" and numToStr = "\<lambda>n. []" and s = "[]",
      OF t1 nb len, THEN conjunct1, THEN mp, OF bad]
  note r2 = submit_voice_presence_only[where
      create = "\<lambda>request calls. (Inr (ascii ''job-1''), calls @ [request])"
      and strToNum = "\<lambda>x. NaN" and numToStr = "\<lambda>n. []" and s = "[]" and v = "ascii ''x''",
      OF t2 nb len, THEN conjunct2, THEN conjunct1, THEN mp, OF conjI, OF v, OF ne]
  note r3 = submit_voice_presence_only[where
      create = "\<lambda>request calls. (Inr (ascii ''job-1''), calls @ [request])"
      and strToNum = "\<lambda>x. NaN" and numToStr = "\<lambda>n. []" and s = "[]" and v = "ascii ''x''"
      and sp = "Finite 1" and pt = "Finite 0",
      OF t2 nb len, THEN conjunct2, THEN conjunct2, THEN mp, OF conjI, OF v, OF conjI, OF ne,
      OF conjI, OF sp, OF pt]
  from r1 r2 r3 show ?thesis by (intro conjI)
qed

text \<open>
  Whatever \<open>createSynthesisJob\<close> does, a submit with the voice id \<open>x\<close> is never answered
  with a 400. And whatever the list of the voice ids of the catalog is, there is no
  \<open>createSynthesisJob\<close> with which the handler answers 400 to every voice id outside
  that list.
\<close>

theorem submit_unknown_voice_counterexample:
  "(\<forall>(create :: SynthesisRequest \<Rightarrow> 's \<Rightarrow> (thrown + jsstring) \<times> 's) strToNum numToStr s.
      resp_status (fst (POST create strToNum numToStr
        (Inr (JObj [(ascii ''text'', JStr (ascii ''Hello world.'')),
                    (ascii ''voiceId'', JStr (ascii ''x''))])) s)) \<noteq> 400)
   \<and> \<not> (\<exists>ids (create :: SynthesisRequest \<Rightarrow> 's \<Rightarrow> (thrown + jsstring) \<times> 's) strToNum numToStr s.
          \<forall>v. v \<notin> set ids \<longrightarrow>
            resp_status (fst (POST create strToNum numToStr
              (Inr (JObj [(ascii ''text'', JStr (ascii ''Hello world.'')),
                          (ascii ''voiceId'', JStr v)])) s)) = 400)"
proof -
  have nb: "\<not> (\<forall>c\<in>set (ascii ''Hello world.''). is_white_space c)"
    by (simp add: is_white_space_def)
  have len: "length (ascii ''Hello world.'') \<le> 100000"
    by simp
  have never: "resp_status (fst (POST create strToNum numToStr
        (Inr (JObj [(ascii ''text'', JStr (ascii ''Hello world.'')),
                    (ascii ''voiceId'', JStr v)])) s)) \<noteq> 400"
    if "v \<noteq> []"
    for create :: "SynthesisRequest \<Rightarrow> 's \<Rightarrow> (thrown + jsstring) \<times> 's"
      and strToNum numToStr v s
  proof -
    let ?p = "JObj [(ascii ''text'', JStr (ascii ''Hello world.'')),
                    (ascii ''voiceId'', JStr v)]"
    have t: "destructure ?p ''text'' = Some (JStr (ascii ''Hello world.''))"
      and w: "destructure ?p ''voiceId'' = Some (JStr v)"
      by (simp_all add: destructure_def)
    from t nb len w that show ?thesis
      by (rule POST_accept_not_400)
  qed
  have first: "\<forall>(create :: SynthesisRequest \<Rightarrow> 's \<Rightarrow> (thrown + jsstring) \<times> 's) strToNum numToStr s.
      resp_status (fst (POST create strToNum numToStr
        (Inr (JObj [(ascii ''text'', JStr (ascii ''Hello world.'')),
                    (ascii ''voiceId'', JStr (ascii ''x''))])) s)) \<noteq> 400"
    using never[of "ascii ''x''"] by simp
  have second: "\<not> (\<exists>ids (create :: SynthesisRequest \<Rightarrow> 's \<Rightarrow> (thrown + jsstring) \<times> 's) strToNum numToStr s.
          \<forall>v. v \<notin> set ids \<longrightarrow>
            resp_status (fst (POST create strToNum numToStr
              (Inr (JObj [(ascii ''text'', JStr (ascii ''Hello world.'')),
                          (ascii ''voiceId'', JStr v)])) s)) = 400)"
  proof
    assume "\<exists>ids (create :: SynthesisRequest \<Rightarrow> 's \<Rightarrow> (thrown + jsstring) \<times> 's) strToNum numToStr s.
          \<forall>v. v \<notin> set ids \<longrightarrow>
            resp_status (fst (POST create strToNum numToStr
              (Inr (JObj [(ascii ''text'', JStr (ascii ''Hello world.'')),
                          (ascii ''voiceId'', JStr v)])) s)) = 400"
    then obtain ids and create :: "SynthesisRequest \<Rightarrow> 's \<Rightarrow> (thrown + jsstring) \<times> 's"
      and strToNum numToStr s where all: "\<And>v. v \<notin> set ids \<Longrightarrow>
            resp_status (fst (POST create strToNum numToStr
              (Inr (JObj [(ascii ''text'', JStr (ascii ''Hello world.'')),
                          (ascii ''voiceId'', JStr v)])) s)) = 400"
      by blast
    have "finite (insert [] (set ids))" by simp
    then obtain v :: jsstring where "v \<notin> insert [] (set ids)"
      using ex_new_if_finite[OF infinite_UNIV_listI] by blast
    then have "v \<noteq> []" and "v \<notin> set ids" by auto
    with all[of v] never[of v create strToNum numToStr s] show False by simp
  qed
  from first second show ?thesis by (rule conjI)
qed

text \<open>
  C9. The handler does not clamp. For an accepted payload whose speed and pitch are
  numbers, the request handed to \<open>createSynthesisJob\<close> carries exactly these two
  numbers, whatever their size.
\<close>

theorem submit_numbers_verbatim:
  assumes "destructure payload ''text'' = Some (JStr t)"
    and "\<not> (\<forall>c\<in>set t. is_white_space c)" and "length t \<le> 100000"
    and "destructure payload ''voiceId'' = Some (JStr v)" and "v \<noteq> []"
    and "destructure payload ''speed'' = Some (JNum x)"
    and "destructure payload ''pitch'' = Some (JNum y)"
  shows "POST create strToNum numToStr (Inr payload) s
           = POST_respond
               (create
                  \<lparr>rq_text = t, rq_voiceId = v, rq_speed = x, rq_pitch = y,
                   rq_emotion = (if typeof_js (destructure payload ''emotion'') = ''string''
                                 then str_of (destructure payload ''emotion'') else neutro)\<rparr>
                  s)"
  using assms(6,7) by (intro POST_accept_ok[OF assms(1-5)]) simp_all

theorem submit_numbers_verbatim_witness:
  "POST (\<lambda>request calls. (Inr (ascii ''job-1''), calls @ [request])) (\<lambda>x. NaN) (\<lambda>n. [])
      (Inr (JObj [(ascii ''text'', JStr (ascii ''Hello world.'')),
                  (ascii ''voiceId'', JStr (ascii ''fem-soft'')),
                  (ascii ''speed'', JNum (Finite 5)),
                  (ascii ''pitch'', JNum (Finite (- 20)))])) []
     = (NextResponse_json (JObj [(ascii ''jobId'', JStr (ascii ''job-1''))]) 202,
        [\<lparr>rq_text = ascii ''Hello world.'', rq_voiceId = ascii ''fem-soft'',
          rq_speed = Finite 5, rq_pitch = Finite (- 20), rq_emotion = neutro\<rparr>])"
proof -
  let ?p = "JObj [(ascii ''text'', JStr (ascii ''Hello world.'')),
                  (ascii ''voiceId'', JStr (ascii ''fem-soft'')),
                  (ascii ''speed'', JNum (Finite 5)),
                  (ascii ''pitch'', JNum (Finite (- 20)))]"
  have t: "destructure ?p ''text'' = Some (JStr (ascii ''Hello world.''))"
    and v: "destructure ?p ''voiceId'' = Some (JStr (ascii ''fem-soft''))"
    and x: "destructure ?p ''speed'' = Some (JNum (Finite 5))"
    and y: "destructure ?p ''pitch'' = Some (JNum (Finite (- 20)))"
    and e: "destructure ?p ''emotion'' = None"
    by (simp_all add: destructure_def)
  have nb: "\<not> (\<forall>c\<in>set (ascii ''Hello world.''). is_white_space c)"
    by (simp add: is_white_space_def)
  have len: "length (ascii ''Hello world.'') \<le> 100000"
    by simp
  have ne: "ascii ''fem-soft'' \<noteq> []"
    by simp
  from submit_numbers_verbatim[where
      create = "\<lambda>request calls. (Inr (ascii ''job-1''), calls @ [request])"
      and strToNum = "\<lambda>x. NaN" and numToStr = "\<lambda>n. []" and s = "[]", OF t nb len v ne x y]
  show ?thesis
    by (simp only: e typeof_js.simps POST_respond.simps append_Nil) simp
qed

text \<open>A speed of 5 and a pitch of -20 lie outside the two ranges and reach
  \<open>createSynthesisJob\<close>, here a function that records its argument, as they are.\<close>

theorem submit_speed_not_clamped_counterexample:
  "snd (POST (\<lambda>request calls. (Inr (ascii ''job-1''), calls @ [request])) (\<lambda>x. NaN) (\<lambda>n. [])
      (Inr (JObj [(ascii ''text'', JStr (ascii ''Hello world.'')),
                  (ascii ''voiceId'', JStr (ascii ''fem-soft'')),
                  (ascii ''speed'', JNum (Finite 5)),
                  (ascii ''pitch'', JNum (Finite (- 20)))])) [])
     = [\<lparr>rq_text = ascii ''Hello world.'', rq_voiceId = ascii ''fem-soft'',
          rq_speed = Finite 5, rq_pitch = Finite (- 20), rq_emotion = neutro\<rparr>]
   \<and> (2 :: rat) < 5 \<and> (- 20 :: rat) < - 10"
  by (simp add: POST_def destructure_def Let_def trim_def is_white_space_def
      MAX_CHARACTERS_def)

text \<open>
  C10. With a valid text and voiceId, and as long as \<open>Number(speed ?? 1)\<close> and
  \<open>Number(pitch ?? 0)\<close> return, a speed or pitch that is missing or not a number and an
  emotion that is not a string do not reject the payload: the handler calls
  \<open>createSynthesisJob\<close> with speed \<open>Number(speed ?? 1)\<close>, pitch \<open>Number(pitch ?? 0)\<close>
  and the emotion, or the string \<open>neutro\<close> whenever the emotion is not a string, and it
  answers 202 with the job id that the call returns. \<open>Number(speed ?? 1)\<close> is 1 for
  an absent or null speed, \<open>Number(pitch ?? 0)\<close> is 0 for an absent or null pitch; on a
  string it is what StringToNumber reads, on a boolean 1 or 0, on a number the number.
  When one of the two conversions throws, the handler answers from its \<open>catch\<close> block
  with status 500 and leaves the state as it is.
\<close>

theorem submit_defaults:
  assumes "destructure payload ''text'' = Some (JStr t)"
    and "\<not> (\<forall>c\<in>set t. is_white_space c)" and "length t \<le> 100000"
    and "destructure payload ''voiceId'' = Some (JStr v)" and "v \<noteq> []"
  shows "let speed = destructure payload ''speed'';
             pitch = destructure payload ''pitch'';
             emotion = destructure payload ''emotion'';
             S = Number_js strToNum numToStr (nullish speed (JNum (Finite 1)));
             P = Number_js strToNum numToStr (nullish pitch (JNum (Finite 0)));
             request = (\<lambda>sp pt.
               \<lparr>rq_text = t, rq_voiceId = v, rq_speed = sp, rq_pitch = pt,
                rq_emotion = (if typeof_js emotion = ''string'' then str_of emotion
                              else [0x006E, 0x0065, 0x0075, 0x0074, 0x0072, 0x006F])\<rparr>)
         in (\<forall>sp pt. S = Inr sp \<and> P = Inr pt \<longrightarrow>
               POST create strToNum numToStr (Inr payload) s
                 = POST_respond (create (request sp pt) s))
          \<and> (\<forall>sp pt jobId s'. S = Inr sp \<and> P = Inr pt
                \<and> create (request sp pt) s = (Inr jobId, s') \<longrightarrow>
               POST create strToNum numToStr (Inr payload) s
                 = (NextResponse_json (JObj [(ascii ''jobId'', JStr jobId)]) 202, s'))
          \<and> (speed = None \<or> speed = Some JNull \<longrightarrow> S = Inr (Finite 1))
          \<and> (pitch = None \<or> pitch = Some JNull \<longrightarrow> P = Inr (Finite 0))
          \<and> (\<forall>x. speed = Some (JStr x) \<longrightarrow> S = Inr (strToNum x))
          \<and> (\<forall>x. pitch = Some (JStr x) \<longrightarrow> P = Inr (strToNum x))
          \<and> (\<forall>b. speed = Some (JBool b) \<longrightarrow> S = Inr (Finite (if b then 1 else 0)))
          \<and> (\<forall>b. pitch = Some (JBool b) \<longrightarrow> P = Inr (Finite (if b then 1 else 0)))
          \<and> (\<forall>n. speed = Some (JNum n) \<longrightarrow> S = Inr n)
          \<and> (\<forall>n. pitch = Some (JNum n) \<longrightarrow> P = Inr n)
          \<and> (\<forall>e. S = Inl e \<or> (\<exists>sp. S = Inr sp) \<and> P = Inl e \<longrightarrow>
               POST create strToNum numToStr (Inr payload) s = (POST_catch e, s))"
proof -
  have lit: "neutro = [0x006E, 0x0065, 0x0075, 0x0074, 0x0072, 0x006F]"
    by (simp add: neutro_def)
  have ok: "POST create strToNum numToStr (Inr payload) s
      = POST_respond
          (create
             \<lparr>rq_text = t, rq_voiceId = v, rq_speed = sp, rq_pitch = pt,
              rq_emotion = (if typeof_js (destructure payload ''emotion'') = ''string''
                            then str_of (destructure payload ''emotion'')
                            else [0x006E, 0x0065, 0x0075, 0x0074, 0x0072, 0x006F])\<rparr> s)"
    if "Number_js strToNum numToStr
          (nullish (destructure payload ''speed'') (JNum (Finite 1))) = Inr sp"
      and "Number_js strToNum numToStr
          (nullish (destructure payload ''pitch'') (JNum (Finite 0))) = Inr pt" for sp pt
    using POST_accept_ok[OF assms that, of create s] by (simp only: lit)
  have thr: "POST create strToNum numToStr (Inr payload) s = (POST_catch e, s)"
    if "Number_js strToNum numToStr
           (nullish (destructure payload ''speed'') (JNum (Finite 1))) = Inl e
       \<or> (\<exists>sp. Number_js strToNum numToStr
                  (nullish (destructure payload ''speed'') (JNum (Finite 1))) = Inr sp)
         \<and> Number_js strToNum numToStr
             (nullish (destructure payload ''pitch'') (JNum (Finite 0))) = Inl e" for e
    using assms that by (rule POST_accept_throws)
  show ?thesis
    unfolding Let_def
  proof (intro conjI allI impI)
    fix sp pt jobId s'
    assume "Number_js strToNum numToStr
          (nullish (destructure payload ''speed'') (JNum (Finite 1))) = Inr sp
        \<and> Number_js strToNum numToStr
          (nullish (destructure payload ''pitch'') (JNum (Finite 0))) = Inr pt
        \<and> create
             \<lparr>rq_text = t, rq_voiceId = v, rq_speed = sp, rq_pitch = pt,
              rq_emotion = (if typeof_js (destructure payload ''emotion'') = ''string''
                            then str_of (destructure payload ''emotion'')
                            else [0x006E, 0x0065, 0x0075, 0x0074, 0x0072, 0x006F])\<rparr> s
            = (Inr jobId, s')"
    then show "POST create strToNum numToStr (Inr payload) s
                 = (NextResponse_json (JObj [(ascii ''jobId'', JStr jobId)]) 202, s')"
      using ok[of sp pt] by (simp del: ascii_Cons ascii_Nil)
  qed (use ok thr in \<open>auto simp del: ascii_Cons ascii_Nil\<close>)
qed

theorem submit_defaults_witness:
  "POST (\<lambda>request calls. (Inr (ascii ''job-1''), calls @ [request]))
      (\<lambda>x. if x = ascii ''1.5'' then Finite (3 / 2) else NaN) (\<lambda>n. [])
      (Inr (JObj [(ascii ''text'', JStr (ascii ''Hello world.'')),
                  (ascii ''voiceId'', JStr (ascii ''fem-soft'')),
                  (ascii ''speed'', JNull),
                  (ascii ''emotion'', JNum (Finite 7))])) []
     = (NextResponse_json (JObj [(ascii ''jobId'', JStr (ascii ''job-1''))]) 202,
        [\<lparr>rq_text = ascii ''Hello world.'', rq_voiceId = ascii ''fem-soft'',
          rq_speed = Finite 1, rq_pitch = Finite 0,
          rq_emotion = [0x006E, 0x0065, 0x0075, 0x0074, 0x0072, 0x006F]\<rparr>])
   \<and> POST (\<lambda>request calls. (Inr (ascii ''job-1''), calls @ [request]))
      (\<lambda>x. if x = ascii ''1.5'' then Finite (3 / 2) else NaN) (\<lambda>n. [])
      (Inr (JObj [(ascii ''text'', JStr (ascii ''Hello world.'')),
                  (ascii ''voiceId'', JStr (ascii ''fem-soft'')),
                  (ascii ''speed'', JStr (ascii ''1.5'')),
                  (ascii ''pitch'', JBool True),
                  (ascii ''emotion'', JStr (ascii ''feliz''))])) []
     = (NextResponse_json (JObj [(ascii ''jobId'', JStr (ascii ''job-1''))]) 202,
        [\<lparr>rq_text = ascii ''Hello world.'', rq_voiceId = ascii ''fem-soft'',
          rq_speed = Finite (3 / 2), rq_pitch = Finite 1,
          rq_emotion = ascii ''feliz''\<rparr>])"
proof -
  let ?create = "\<lambda>request calls. (Inr (ascii ''job-1'') :: thrown + jsstring,
                    calls @ [request :: SynthesisRequest])"
  let ?strToNum = "\<lambda>x. if x = ascii ''1.5'' then Finite (3 / 2) else NaN"
  let ?p = "JObj [(ascii ''text'', JStr (ascii ''Hello world.'')),
                  (ascii ''voiceId'', JStr (ascii ''fem-soft'')),
                  (ascii ''speed'', JNull),
                  (ascii ''emotion'', JNum (Finite 7))]"
  let ?q = "JObj [(ascii ''text'', JStr (ascii ''Hello world.'')),
                  (ascii ''voiceId'', JStr (ascii ''fem-soft'')),
                  (ascii ''speed'', JStr (ascii ''1.5'')),
                  (ascii ''pitch'', JBool True),
                  (ascii ''emotion'', JStr (ascii ''feliz''))]"
  have tp: "destructure ?p ''text'' = Some (JStr (ascii ''Hello world.''))"
    and vp: "destructure ?p ''voiceId'' = Some (JStr (ascii ''fem-soft''))"
    and tq: "destructure ?q ''text'' = Some (JStr (ascii ''Hello world.''))"
    and vq: "destructure ?q ''voiceId'' = Some (JStr (ascii ''fem-soft''))"
    by (simp_all add: destructure_def)
  have nb: "\<not> (\<forall>c\<in>set (ascii ''Hello world.''). is_white_space c)"
    by (simp add: is_white_space_def)
  have len: "length (ascii ''Hello world.'') \<le> 100000"
    by simp
  have ne: "ascii ''fem-soft'' \<noteq> []"
    by simp
  have sp: "Number_js ?strToNum (\<lambda>n. [])
              (nullish (destructure ?p ''speed'') (JNum (Finite 1))) = Inr (Finite 1)
          \<and> Number_js ?strToNum (\<lambda>n. [])
              (nullish (destructure ?p ''pitch'') (JNum (Finite 0))) = Inr (Finite 0)"
    by (simp add: destructure_def)
  have sq: "Number_js ?strToNum (\<lambda>n. [])
              (nullish (destructure ?q ''speed'') (JNum (Finite 1))) = Inr (Finite (3 / 2))
          \<and> Number_js ?strToNum (\<lambda>n. [])
              (nullish (destructure ?q ''pitch'') (JNum (Finite 0))) = Inr (Finite 1)"
    by (simp add: destructure_def)
  note r1 = submit_defaults[where create = ?create and strToNum = ?strToNum
      and numToStr = "\<lambda>n. []" and s = "[]", OF tp nb len vp ne, unfolded Let_def,
      THEN conjunct1, rule_format, OF sp]
  note r2 = submit_defaults[where create = ?create and strToNum = ?strToNum
      and numToStr = "\<lambda>n. []" and s = "[]", OF tq nb len vq ne, unfolded Let_def,
      THEN conjunct1, rule_format, OF sq]
  from r1 have a: "POST ?create ?strToNum (\<lambda>n. []) (Inr ?p) []
     = (NextResponse_json (JObj [(ascii ''jobId'', JStr (ascii ''job-1''))]) 202,
        [\<lparr>rq_text = ascii ''Hello world.'', rq_voiceId = ascii ''fem-soft'',
          rq_speed = Finite 1, rq_pitch = Finite 0,
          rq_emotion = [0x006E, 0x0065, 0x0075, 0x0074, 0x0072, 0x006F]\<rparr>])"
    by (simp add: destructure_def)
  from r2 have b: "POST ?create ?strToNum (\<lambda>n. []) (Inr ?q) []
     = (NextResponse_json (JObj [(ascii ''jobId'', JStr (ascii ''job-1''))]) 202,
        [\<lparr>rq_text = ascii ''Hello world.'', rq_voiceId = ascii ''fem-soft'',
          rq_speed = Finite (3 / 2), rq_pitch = Finite 1,
          rq_emotion = ascii ''feliz''\<rparr>])"
    by (simp add: destructure_def)
  from a b show ?thesis by (rule conjI)
qed

text \<open>
  A speed that is an object with an own property \<open>toString\<close> has no primitive value:
  \<open>Number(speed ?? 1)\<close> throws, and whatever \<open>createSynthesisJob\<close> is, the handler
  answers 500 from its \<open>catch\<close> block with the state as it was, although text and
  voiceId are valid.
\<close>

theorem submit_number_throws_counterexample:
  "\<forall>(create :: SynthesisRequest \<Rightarrow> 's \<Rightarrow> (thrown + jsstring) \<times> 's) strToNum numToStr s.
     POST create strToNum numToStr
       (Inr (JObj [(ascii ''text'', JStr (ascii ''Hello world.'')),
                   (ascii ''voiceId'', JStr (ascii ''fem-soft'')),
                   (ascii ''speed'', JObj [(ascii ''toString'', JNum (Finite 1))])])) s
     = (NextResponse_json (message_obj msg_cannot_convert) 500, s)"
  by (simp add: POST_def destructure_def Let_def trim_def is_white_space_def
      MAX_CHARACTERS_def POST_catch_def)

section \<open>The lifecycle of a job\<close>

lemma String_nat_not_Nil: "String_nat n \<noteq> []"
  by (subst String_nat.simps) simp

lemma String_nat_small: "n < 10 \<Longrightarrow> String_nat n = [word_of_nat (48 + n)]"
  by (subst String_nat.simps) simp

lemma String_nat_large:
  "\<not> n < 10 \<Longrightarrow> String_nat n = String_nat (n div 10) @ [word_of_nat (48 + n mod 10)]"
  by (subst String_nat.simps) simp

lemma digit_inj:
  "a < 10 \<Longrightarrow> b < 10 \<Longrightarrow> (word_of_nat (48 + a) :: 16 word) = word_of_nat (48 + b) \<Longrightarrow> a = b"
  by (simp add: word_of_nat_eq_iff take_bit_nat_eq_self)

lemma String_nat_inj: "String_nat a = String_nat b \<Longrightarrow> a = b"
proof (induction a arbitrary: b rule: String_nat.induct)
  case (1 n)
  show ?case
  proof (cases "n < 10")
    case True
    show ?thesis
    proof (cases "b < 10")
      case b: True
      from "1.prems" True b have "(word_of_nat (48 + n) :: 16 word) = word_of_nat (48 + b)"
        by (simp add: String_nat_small)
      with True b show ?thesis by (blast intro: digit_inj)
    next
      case False
      from "1.prems" True False have "String_nat (b div 10) = []"
        by (simp add: String_nat_small String_nat_large)
      then show ?thesis by (simp add: String_nat_not_Nil)
    qed
  next
    case False
    show ?thesis
    proof (cases "b < 10")
      case True
      from "1.prems" True False have "String_nat (n div 10) = []"
        by (simp add: String_nat_small String_nat_large)
      then show ?thesis by (simp add: String_nat_not_Nil)
    next
      case b: False
      from "1.prems" False b have eq: "String_nat (n div 10) = String_nat (b div 10)"
        and d: "(word_of_nat (48 + n mod 10) :: 16 word) = word_of_nat (48 + b mod 10)"
        by (simp_all add: String_nat_large)
      from "1.IH"[OF False eq] have "n div 10 = b div 10" .
      moreover from d have "n mod 10 = b mod 10"
        by (intro digit_inj) simp_all
      ultimately show ?thesis
        by (metis div_mult_mod_eq)
    qed
  qed
qed

lemma mk_id_inj: "mk_id a = mk_id b \<longleftrightarrow> a = b"
  by (auto simp: mk_id_def dest: String_nat_inj)

text \<open>A generated id can stand in a header value.\<close>

lemma digit_header_ok:
  "d < 10 \<Longrightarrow> header_value_ok [word_of_nat (48 + d)]"
proof -
  assume "d < 10"
  then have "d \<in> {0, 1, 2, 3, 4, 5, 6, 7, 8, 9}" by auto
  then show ?thesis by (auto simp: header_value_ok_def)
qed

lemma header_value_ok_append:
  "header_value_ok (xs @ ys) \<longleftrightarrow> header_value_ok xs \<and> header_value_ok ys"
  by (simp add: header_value_ok_def)

lemma String_nat_header_ok: "header_value_ok (String_nat n)"
proof (induction n rule: String_nat.induct)
  case (1 n)
  show ?case
  proof (cases "n < 10")
    case True
    have "String_nat n = [word_of_nat (48 + n)]"
      using True by (rule String_nat_small)
    with digit_header_ok[OF True] show ?thesis by (simp only:)
  next
    case False
    have "n mod 10 < 10" by simp
    then have "header_value_ok [word_of_nat (48 + n mod 10)]"
      by (rule digit_header_ok)
    moreover have "String_nat n = String_nat (n div 10) @ [word_of_nat (48 + n mod 10)]"
      using False by (rule String_nat_large)
    ultimately show ?thesis
      using "1.IH"[OF False] by (simp only: header_value_ok_append)
  qed
qed

lemma mk_id_header_ok: "header_value_ok (mk_id n)"
proof -
  have "header_value_ok (ascii ''job-'')"
    by (simp add: header_value_ok_def)
  with String_nat_header_ok[of n] show ?thesis
    by (simp only: mk_id_def header_value_ok_append)
qed


lemma mutate_fields [simp]:
  "next_id (JobStore_mutate m jobId fn) = next_id m"
  "pipelines (JobStore_mutate m jobId fn) = pipelines m"
  by (simp_all add: JobStore_mutate_def split: option.splits)

lemma mutate_jobs:
  "jobs (JobStore_mutate m jobId fn) =
     (case jobs m jobId of
        None \<Rightarrow> jobs m
      | Some job \<Rightarrow> if terminal job then jobs m else (jobs m)(jobId \<mapsto> fn job))"
  by (simp add: JobStore_mutate_def split: option.splits)

lemma mutate_terminal:
  "jobs m k = Some job \<Longrightarrow> terminal job \<Longrightarrow> jobs (JobStore_mutate m jobId fn) k = Some job"
  by (auto simp: mutate_jobs split: option.splits)

lemma mutate_dom: "jobs (JobStore_mutate m jobId fn) k \<noteq> None \<longleftrightarrow> jobs m k \<noteq> None"
  by (auto simp: mutate_jobs split: option.splits if_splits)

lemma mutate_id: "JobStore_mutate m jobId (\<lambda>job. job) = m"
  by (simp add: JobStore_mutate_def map_upd_triv split: option.splits)

lemma step_is_mutate: "\<exists>fn. snd (pipeline_step jobId pl ev m) = JobStore_mutate m jobId fn"
proof -
  have same: "\<exists>fn. m = JobStore_mutate m jobId fn"
    using mutate_id[of m jobId] by metis
  show ?thesis
  proof (cases "pl_phase pl")
    case Waiting
    then show ?thesis using same
      by (cases ev) (auto simp: pipeline_step_def)
  next
    case (Running k)
    then show ?thesis using same
      by (cases ev) (auto simp: pipeline_step_def fail_job_def JobStore_attachAudio_def)
  next
    case Finished
    then show ?thesis using same
      by (simp add: pipeline_step_def)
  qed
qed

lemma apply_action_is_mutate:
  "(\<exists>request. a = Submit request) \<or>
   (\<exists>jobId fn. jobs (apply_action P m a) = jobs (JobStore_mutate m jobId fn)
       \<and> next_id (apply_action P m a) = next_id m)"
proof (cases a)
  case (Submit request)
  then show ?thesis by simp
next
  case (PipelineEvent jobId ev)
  show ?thesis
  proof (cases "pipelines m jobId")
    case None
    with PipelineEvent have "apply_action P m a = JobStore_mutate m jobId (\<lambda>job. job)"
      by (simp add: apply_action_def mutate_id)
    then show ?thesis by (metis mutate_fields(1))
  next
    case (Some pl)
    obtain fn where fn: "snd (pipeline_step jobId pl ev m) = JobStore_mutate m jobId fn"
      using step_is_mutate by blast
    with PipelineEvent Some have "jobs (apply_action P m a) = jobs (JobStore_mutate m jobId fn)"
      and "next_id (apply_action P m a) = next_id m"
      by (auto simp: apply_action_def split: prod.splits)
    then show ?thesis by blast
  qed
next
  case (Mutate jobId fn)
  then show ?thesis by (auto simp: apply_action_def)
next
  case (AttachAudio jobId bytes dur)
  then show ?thesis by (auto simp: apply_action_def JobStore_attachAudio_def)
qed

lemma submit_jobs:
  "jobs (apply_action P m (Submit request)) =
     (jobs m)(mk_id (next_id m) \<mapsto>
        \<lparr>job_id = mk_id (next_id m), job_status = queued, job_progress = 0, job_error = None,
         job_duration = None, job_audio = None\<rparr>)"
  "next_id (apply_action P m (Submit request)) = Suc (next_id m)"
  by (simp_all add: apply_action_def createSynthesisJob_def JobStore_create_def Let_def)

lemma fresh_id: "ids_fresh m \<Longrightarrow> jobs m (mk_id (next_id m)) = None"
  by (fastforce simp: ids_fresh_def mk_id_inj)

lemma apply_action_fresh: "ids_fresh m \<Longrightarrow> ids_fresh (apply_action P m a)"
proof -
  assume f: "ids_fresh m"
  consider (sub) request where "a = Submit request"
    | (mut) jobId fn where "jobs (apply_action P m a) = jobs (JobStore_mutate m jobId fn)"
        "next_id (apply_action P m a) = next_id m"
    using apply_action_is_mutate[of a P m] by blast
  then show ?thesis
  proof cases
    case sub
    with f show ?thesis
      unfolding ids_fresh_def submit_jobs sub
      by (auto simp: less_Suc_eq)
  next
    case mut
    with f show ?thesis
      unfolding ids_fresh_def by (metis mutate_dom)
  qed
qed

lemma apply_action_terminal:
  assumes "ids_fresh m" and "jobs m k = Some job" and "terminal job"
  shows "jobs (apply_action P m a) k = Some job"
proof -
  consider (sub) request where "a = Submit request"
    | (mut) jobId fn where "jobs (apply_action P m a) = jobs (JobStore_mutate m jobId fn)"
    using apply_action_is_mutate[of a P m] by blast
  then show ?thesis
  proof cases
    case sub
    from assms(1,2) have "k \<noteq> mk_id (next_id m)"
      using fresh_id by fastforce
    with assms(2) show ?thesis
      by (simp add: sub submit_jobs)
  next
    case mut
    with assms(2,3) show ?thesis by (simp add: mutate_terminal)
  qed
qed

lemma run_Nil [simp]: "run P m [] = m"
  by (simp add: run_def)

lemma run_Cons [simp]: "run P m (a # acts) = run P (apply_action P m a) acts"
  by (simp add: run_def)

lemma run_append: "run P m (xs @ ys) = run P (run P m xs) ys"
  by (simp add: run_def)

lemma run_fresh: "ids_fresh m \<Longrightarrow> ids_fresh (run P m acts)"
  by (induction acts arbitrary: m) (simp_all add: apply_action_fresh)

lemma run_terminal:
  "ids_fresh m \<Longrightarrow> jobs m k = Some job \<Longrightarrow> terminal job \<Longrightarrow> jobs (run P m acts) k = Some job"
  by (induction acts arbitrary: m) (simp_all add: apply_action_fresh apply_action_terminal)

lemma empty_fresh: "ids_fresh empty_manager"
  by (simp add: ids_fresh_def empty_manager_def)


lemma chunk_progress_mono:
  "5 + 85 * k div n \<le> 5 + 85 * Suc k div n"
  by (simp add: div_le_mono)

lemma chunk_progress_bound:
  "Suc k \<le> n \<Longrightarrow> 5 + 85 * Suc k div n \<le> 90"
proof -
  assume "Suc k \<le> n"
  then have "85 * Suc k \<le> 85 * n" by simp
  then have "85 * Suc k div n \<le> 85 * n div n" by (rule div_le_mono)
  also have "\<dots> \<le> 85" by (cases "n = 0") simp_all
  finally show ?thesis by simp
qed

lemma step_owned:
  assumes "in_step pl job" and "jobs m jobId = Some job"
    and "pipeline_step jobId pl ev m = (pl', m')"
  shows "(\<forall>k. k \<noteq> jobId \<longrightarrow> jobs m' k = jobs m k)
       \<and> (\<exists>job'. jobs m' jobId = Some job' \<and> job_progress job \<le> job_progress job'
             \<and> in_step pl' job')"
proof (cases "pl_phase pl")
  case Waiting
  with assms show ?thesis
    by (cases ev)
       (auto simp: pipeline_step_def in_step_def mutate_jobs terminal_def map_upd_triv)
next
  case (Running k)
  show ?thesis
  proof (cases "k < pl_totalChunks pl")
    case True
    have "5 + 85 * k div pl_totalChunks pl \<le> 5 + 85 * Suc k div pl_totalChunks pl"
      by (rule chunk_progress_mono)
    moreover have "5 + 85 * Suc k div pl_totalChunks pl \<le> 90"
      using True by (intro chunk_progress_bound) simp
    ultimately show ?thesis using assms Running True
      by (cases ev)
         (auto simp: pipeline_step_def in_step_def mutate_jobs terminal_def map_upd_triv
            fail_job_def split: if_splits)
  next
    case False
    with assms Running show ?thesis
      by (cases ev)
         (auto simp: pipeline_step_def in_step_def mutate_jobs terminal_def map_upd_triv
            fail_job_def JobStore_attachAudio_def split: if_splits)
  qed
next
  case Finished
  with assms show ?thesis
    by (auto simp: pipeline_step_def in_step_def map_upd_triv)
qed

lemma step_fields:
  "pipelines (snd (pipeline_step jobId pl ev m)) = pipelines m"
  "next_id (snd (pipeline_step jobId pl ev m)) = next_id m"
  using step_is_mutate[of jobId pl ev m] by auto

lemma writer_step:
  assumes "owned m" and "ids_fresh m" and "single_writer a"
  shows "owned (apply_action P m a)
       \<and> (\<forall>k job. jobs m k = Some job \<longrightarrow>
            (\<exists>job'. jobs (apply_action P m a) k = Some job' \<and> job_progress job \<le> job_progress job'))"
proof (cases a)
  case (Submit request)
  have new: "jobs m (mk_id (next_id m)) = None"
    using assms(2) by (rule fresh_id)
  have pl: "pipelines (apply_action P m a) =
      (pipelines m)(mk_id (next_id m) \<mapsto>
         \<lparr>pl_request = request, pl_totalChunks = length (P (rq_text request)),
          pl_segments = Map.empty, pl_phase = Waiting\<rparr>)"
    by (simp add: Submit apply_action_def createSynthesisJob_def JobStore_create_def Let_def)
  have "owned (apply_action P m a)"
    unfolding owned_def pl using assms(1) new
    by (auto simp: Submit submit_jobs owned_def in_step_def split: option.splits)
  moreover have "\<forall>k job. jobs m k = Some job \<longrightarrow>
      (\<exists>job'. jobs (apply_action P m a) k = Some job' \<and> job_progress job \<le> job_progress job')"
    using new by (auto simp: Submit submit_jobs)
  ultimately show ?thesis by blast
next
  case (PipelineEvent jobId ev)
  show ?thesis
  proof (cases "pipelines m jobId")
    case None
    with PipelineEvent have "apply_action P m a = m"
      by (simp add: apply_action_def)
    with assms(1) show ?thesis by simp
  next
    case (Some pl)
    obtain pl' m' where st: "pipeline_step jobId pl ev m = (pl', m')"
      by (cases "pipeline_step jobId pl ev m")
    from assms(1) Some obtain job where job: "jobs m jobId = Some job" and ok: "in_step pl job"
      by (auto simp: owned_def split: option.splits)
    from step_owned[OF ok job st] obtain job' where
      other: "\<And>k. k \<noteq> jobId \<Longrightarrow> jobs m' k = jobs m k"
      and j': "jobs m' jobId = Some job'" and le: "job_progress job \<le> job_progress job'"
      and ok': "in_step pl' job'"
      by blast
    have pls: "pipelines m' = pipelines m"
      using step_fields(1)[of jobId pl ev m] st by simp
    have ap: "apply_action P m a = m'\<lparr>pipelines := (pipelines m')(jobId \<mapsto> pl')\<rparr>"
      using PipelineEvent Some st by (simp add: apply_action_def)
    have "owned (apply_action P m a)"
      unfolding owned_def ap
    proof (intro allI impI)
      fix k p assume p: "pipelines (m'\<lparr>pipelines := (pipelines m')(jobId \<mapsto> pl')\<rparr>) k = Some p"
      show "case jobs (m'\<lparr>pipelines := (pipelines m')(jobId \<mapsto> pl')\<rparr>) k of
              None \<Rightarrow> False | Some job \<Rightarrow> in_step p job"
      proof (cases "k = jobId")
        case True
        with p ok' j' show ?thesis by simp
      next
        case False
        with p pls have "pipelines m k = Some p" by simp
        with assms(1) have "case jobs m k of None \<Rightarrow> False | Some job \<Rightarrow> in_step p job"
          by (simp add: owned_def)
        with other[OF False] show ?thesis by simp
      qed
    qed
    moreover have "\<forall>k j. jobs m k = Some j \<longrightarrow>
        (\<exists>job'. jobs (apply_action P m a) k = Some job' \<and> job_progress j \<le> job_progress job')"
    proof (intro allI impI)
      fix k j assume kj: "jobs m k = Some j"
      show "\<exists>job'. jobs (apply_action P m a) k = Some job' \<and> job_progress j \<le> job_progress job'"
      proof (cases "k = jobId")
        case True
        with kj job j' le show ?thesis by (simp add: ap)
      next
        case False
        with kj other[OF False] show ?thesis by (simp add: ap)
      qed
    qed
    ultimately show ?thesis by blast
  qed
next
  case (Mutate jobId fn)
  with assms(3) show ?thesis by simp
next
  case (AttachAudio jobId bytes dur)
  with assms(3) show ?thesis by simp
qed

lemma run_writer:
  assumes "owned m" and "ids_fresh m" and "list_all single_writer acts"
  shows "owned (run P m acts)
       \<and> (\<forall>k job. jobs m k = Some job \<longrightarrow>
            (\<exists>job'. jobs (run P m acts) k = Some job' \<and> job_progress job \<le> job_progress job'))"
  using assms
proof (induction acts arbitrary: m)
  case Nil
  then show ?case by simp
next
  case (Cons a acts)
  let ?m = "apply_action P m a"
  from Cons.prems have a: "single_writer a" and rest: "list_all single_writer acts"
    by simp_all
  from writer_step[OF Cons.prems(1,2) a]
  have o: "owned ?m" and mono: "\<And>k job. jobs m k = Some job \<Longrightarrow>
      \<exists>job'. jobs ?m k = Some job' \<and> job_progress job \<le> job_progress job'"
    by blast+
  have f: "ids_fresh ?m" using Cons.prems(2) by (rule apply_action_fresh)
  from Cons.IH[OF o f rest]
  have o': "owned (run P ?m acts)" and mono': "\<And>k job. jobs ?m k = Some job \<Longrightarrow>
      \<exists>job'. jobs (run P ?m acts) k = Some job' \<and> job_progress job \<le> job_progress job'"
    by blast+
  show ?case
  proof (intro conjI allI impI)
    show "owned (run P m (a # acts))" using o' by simp
  next
    fix k job assume "jobs m k = Some job"
    from mono[OF this] obtain j1 where "jobs ?m k = Some j1" "job_progress job \<le> job_progress j1"
      by blast
    moreover from mono'[OF this(1)] obtain j2 where
      "jobs (run P ?m acts) k = Some j2" "job_progress j1 \<le> job_progress j2"
      by blast
    ultimately show "\<exists>job'. jobs (run P m (a # acts)) k = Some job' \<and> job_progress job \<le> job_progress job'"
      by auto
  qed
qed

lemma empty_owned: "owned empty_manager"
  by (simp add: owned_def empty_manager_def)

text \<open>
  C5. In every execution of the job manager from its empty state in which jobs are
  written only by a submit or by the pipeline that owns them, the progress of a job never
  decreases from one moment to any later one. Once a job is terminal (completed or
  failed), no later operation of any kind (a submit, a pipeline event, a direct
  \<open>mutate\<close> or \<open>attachAudio\<close>) changes its record, so its progress and status stay as
  they are.
\<close>

theorem progress_monotone_terminal_final:
  assumes "jobs (run P empty_manager pre) jobId = Some job"
  shows "(list_all single_writer (pre @ acts) \<longrightarrow>
            (\<exists>job'. jobs (run P empty_manager (pre @ acts)) jobId = Some job'
                    \<and> job_progress job \<le> job_progress job'))
       \<and> (terminal job \<longrightarrow> jobs (run P empty_manager (pre @ acts)) jobId = Some job)"
proof (intro conjI impI)
  assume sw: "list_all single_writer (pre @ acts)"
  then have "list_all single_writer pre" and acts: "list_all single_writer acts"
    by simp_all
  then have "owned (run P empty_manager pre)"
    using run_writer[OF empty_owned empty_fresh] by blast
  moreover have "ids_fresh (run P empty_manager pre)"
    using empty_fresh by (rule run_fresh)
  ultimately show "\<exists>job'. jobs (run P empty_manager (pre @ acts)) jobId = Some job'
                    \<and> job_progress job \<le> job_progress job'"
    using run_writer acts assms by (simp add: run_append)
next
  assume "terminal job"
  moreover have "ids_fresh (run P empty_manager pre)"
    using empty_fresh by (rule run_fresh)
  ultimately show "jobs (run P empty_manager (pre @ acts)) jobId = Some job"
    using assms by (simp add: run_append run_terminal)
qed

theorem progress_monotone_terminal_final_witness:
  "(\<exists>job'. jobs (run (\<lambda>t. [t]) empty_manager
        ([Submit \<lparr>rq_text = ascii ''Hello world.'', rq_voiceId = ascii ''fem-soft'',
                  rq_speed = Finite 1, rq_pitch = Finite 0, rq_emotion = neutro\<rparr>,
          PipelineEvent (mk_id 0) Started]
         @ [PipelineEvent (mk_id 0) (ChunkDone 0 [1, 2, 3]),
            PipelineEvent (mk_id 0) (EncoderProgress 50),
            PipelineEvent (mk_id 0) (EncoderProgress 20)])) (mk_id 0) = Some job'
      \<and> 1 \<le> job_progress job')
   \<and> jobs (run (\<lambda>t. [t]) empty_manager
        ([Submit \<lparr>rq_text = ascii ''Hello world.'', rq_voiceId = ascii ''fem-soft'',
                  rq_speed = Finite 1, rq_pitch = Finite 0, rq_emotion = neutro\<rparr>,
          PipelineEvent (mk_id 0) Started,
          PipelineEvent (mk_id 0) (ChunkDone 0 [1, 2, 3]),
          PipelineEvent (mk_id 0)
            (EncoderEnd \<lparr>buffer = [7, 7], byteOffset = 0, byteLength = 2\<rparr> (Finite 1))]
         @ [Mutate (mk_id 0) (\<lambda>job. job\<lparr>job_status := queued, job_progress := 3\<rparr>),
            PipelineEvent (mk_id 0) (EncoderError (ascii ''late'')),
            AttachAudio (mk_id 0) \<lparr>buffer = [], byteOffset = 0, byteLength = 0\<rparr> (Finite 9)]))
        (mk_id 0)
     = Some \<lparr>job_id = mk_id 0, job_status = completed, job_progress = 100, job_error = None,
         job_duration = Some (Finite 1),
         job_audio = Some \<lparr>buffer = [7, 7], byteOffset = 0, byteLength = 2\<rparr>\<rparr>"
proof -
  let ?req = "\<lparr>rq_text = ascii ''Hello world.'', rq_voiceId = ascii ''fem-soft'',
                  rq_speed = Finite 1, rq_pitch = Finite 0, rq_emotion = neutro\<rparr>"
  let ?pre1 = "[Submit ?req, PipelineEvent (mk_id 0) Started]"
  let ?acts1 = "[PipelineEvent (mk_id 0) (ChunkDone 0 [1, 2, 3]),
            PipelineEvent (mk_id 0) (EncoderProgress 50),
            PipelineEvent (mk_id 0) (EncoderProgress 20)]"
  let ?audio = "\<lparr>buffer = [7, 7 :: byte], byteOffset = 0, byteLength = 2\<rparr>"
  let ?pre2 = "[Submit ?req, PipelineEvent (mk_id 0) Started,
          PipelineEvent (mk_id 0) (ChunkDone 0 [1, 2, 3]),
          PipelineEvent (mk_id 0) (EncoderEnd ?audio (Finite 1))]"
  let ?acts2 = "[Mutate (mk_id 0) (\<lambda>job. job\<lparr>job_status := queued, job_progress := 3\<rparr>),
            PipelineEvent (mk_id 0) (EncoderError (ascii ''late'')),
            AttachAudio (mk_id 0) \<lparr>buffer = [], byteOffset = 0, byteLength = 0\<rparr> (Finite 9)]"
  let ?j1 = "\<lparr>job_id = mk_id 0, job_status = processing, job_progress = 1, job_error = None,
         job_duration = None, job_audio = None\<rparr>"
  let ?j2 = "\<lparr>job_id = mk_id 0, job_status = completed, job_progress = 100, job_error = None,
         job_duration = Some (Finite 1), job_audio = Some ?audio\<rparr>"
  have s1: "jobs (run (\<lambda>t. [t]) empty_manager ?pre1) (mk_id 0) = Some ?j1"
    by (simp add: apply_action_def createSynthesisJob_def JobStore_create_def
        pipeline_step_def JobStore_mutate_def terminal_def empty_manager_def Let_def)
  have w1: "list_all single_writer (?pre1 @ ?acts1)"
    by simp
  have s2: "jobs (run (\<lambda>t. [t]) empty_manager ?pre2) (mk_id 0) = Some ?j2"
    by (simp add: apply_action_def createSynthesisJob_def JobStore_create_def
        pipeline_step_def JobStore_mutate_def JobStore_attachAudio_def terminal_def
        empty_manager_def Let_def)
  have t2: "terminal ?j2"
    by (simp add: terminal_def)
  note r1 = progress_monotone_terminal_final[where acts = ?acts1, OF s1, THEN conjunct1,
      THEN mp, OF w1]
  note r2 = progress_monotone_terminal_final[where acts = ?acts2, OF s2, THEN conjunct2,
      THEN mp, OF t2]
  from r1 have "\<exists>job'. jobs (run (\<lambda>t. [t]) empty_manager (?pre1 @ ?acts1)) (mk_id 0) = Some job'
      \<and> 1 \<le> job_progress job'"
    by simp
  with r2 show ?thesis by (intro conjI)
qed

end
